theory Spec2Isabelle
  imports Complex_Main "HOL-Library.Char_ord" "HOL-Library.List_Lexorder" "HOL-Library.Sublist"
begin

section \<open>Python values used by the tools\<close>

text \<open>
  Text is a sequence of 8-bit units: the UTF-8 encoding of the Python \<open>str\<close>, which is
  what the data file holds and what the dashboards are written as. Comparing two such
  sequences unit by unit orders them as Python orders the strings by code point.
\<close>

subsection \<open>\<open>str.strip()\<close> and \<open>str.lower()\<close>\<close>

text \<open>
  \<open>str.strip()\<close> removes leading and trailing whitespace. The whitespace modelled is
  the ASCII whitespace of Python: TAB, LF, VT, FF, CR, the separators 0x1C to 0x1F and the
  space.
\<close>

definition py_isspace :: "char \<Rightarrow> bool" where
  "py_isspace c \<longleftrightarrow> (9 \<le> (of_char c :: nat) \<and> (of_char c :: nat) \<le> 13)
     \<or> (28 \<le> (of_char c :: nat) \<and> (of_char c :: nat) \<le> 32)"

definition py_lstrip :: "string \<Rightarrow> string" where
  "py_lstrip s = dropWhile py_isspace s"

definition py_rstrip :: "string \<Rightarrow> string" where
  "py_rstrip s = rev (dropWhile py_isspace (rev s))"

definition py_strip :: "string \<Rightarrow> string" where
  "py_strip s = py_rstrip (py_lstrip s)"

text \<open>
  \<open>str.lower()\<close> on the letters of the data set: \<open>A\<close> to \<open>Z\<close>, and the capital letters
  of the Latin-1 supplement (U+00C0 to U+00DE without the multiplication sign U+00D7),
  which UTF-8 writes as 0xC3 followed by 0x80 to 0x9E. Both map to the code 32 places up.
\<close>

definition is_ascii_upper :: "char \<Rightarrow> bool" where
  "is_ascii_upper c \<longleftrightarrow> 65 \<le> (of_char c :: nat) \<and> (of_char c :: nat) \<le> 90"

definition is_latin1_upper_tail :: "char \<Rightarrow> bool" where
  "is_latin1_upper_tail c \<longleftrightarrow>
     128 \<le> (of_char c :: nat) \<and> (of_char c :: nat) \<le> 158 \<and> (of_char c :: nat) \<noteq> 151"

text \<open>Adding 32 to one of these codes sets bit 5, which is clear in all of them.\<close>

fun shift32 :: "char \<Rightarrow> char" where
  "shift32 (Char b0 b1 b2 b3 b4 b5 b6 b7) = Char b0 b1 b2 b3 b4 True b6 b7"

fun py_lower :: "string \<Rightarrow> string" where
  "py_lower [] = []"
| "py_lower [c] = (if is_ascii_upper c then [shift32 c] else [c])"
| "py_lower (c # d # cs) =
     (if is_ascii_upper c then shift32 c # py_lower (d # cs)
      else if c = CHR 0xC3 \<and> is_latin1_upper_tail d then c # shift32 d # py_lower cs
      else c # py_lower (d # cs))"

subsection \<open>Parsed JSON\<close>

text \<open>
  What \<open>json.load\<close> returns: \<open>None\<close>, \<open>bool\<close>, \<open>int\<close>, \<open>float\<close>, \<open>str\<close>, \<open>list\<close>
  and \<open>dict\<close>. A \<open>dict\<close> is the list of its items; \<open>map_of\<close> looks a key up.
\<close>

datatype json =
    JNull
  | JBool bool
  | JInt int
  | JFloat real
  | JStr string
  | JArr "json list"
  | JObj "(string \<times> json) list"

text \<open>Truth value of an object in a condition (\<open>if street_val:\<close>, \<open>if oi:\<close>).\<close>

fun truthy :: "json \<Rightarrow> bool" where
  "truthy JNull = False"
| "truthy (JBool b) = b"
| "truthy (JInt n) = (n \<noteq> 0)"
| "truthy (JFloat x) = (x \<noteq> 0)"
| "truthy (JStr s) = (s \<noteq> [])"
| "truthy (JArr xs) = (xs \<noteq> [])"
| "truthy (JObj kvs) = (kvs \<noteq> [])"

fun py_type_name :: "json \<Rightarrow> string" where
  "py_type_name JNull = ''NoneType''"
| "py_type_name (JBool b) = ''bool''"
| "py_type_name (JInt n) = ''int''"
| "py_type_name (JFloat x) = ''float''"
| "py_type_name (JStr s) = ''str''"
| "py_type_name (JArr xs) = ''list''"
| "py_type_name (JObj kvs) = ''dict''"

subsection \<open>Exceptions\<close>

text \<open>
  An exception is its class and its message (\<open>str(e)\<close>). \<open>OtherError\<close> stands for what the
  operating system and the external analysis package raise.
\<close>

datatype exn_class =
    FileNotFoundError | JSONDecodeError | KeyError | TypeError | AttributeError | OtherError

datatype exn = Exn (exn_class: exn_class) (str_exn: string)

definition no_attribute :: "json \<Rightarrow> string \<Rightarrow> exn" where
  "no_attribute v a =
     Exn AttributeError
       ([CHR 0x27] @ py_type_name v @ [CHR 0x27] @ '' object has no attribute '' @
        [CHR 0x27] @ a @ [CHR 0x27])"

definition quoted :: "string \<Rightarrow> string" where
  "quoted s = [CHR 0x27] @ s @ [CHR 0x27]"

text \<open>\<open>d.get(key, default)\<close>: only a \<open>dict\<close> has the method.\<close>

fun dict_get :: "json \<Rightarrow> string \<Rightarrow> json \<Rightarrow> exn + json" where
  "dict_get (JObj kvs) key dflt = Inr (case map_of kvs key of None \<Rightarrow> dflt | Some v \<Rightarrow> v)"
| "dict_get v key dflt = Inl (no_attribute v ''get'')"

text \<open>\<open>d[key]\<close> with a string key.\<close>

fun subscript :: "json \<Rightarrow> string \<Rightarrow> exn + json" where
  "subscript (JObj kvs) key =
     (case map_of kvs key of None \<Rightarrow> Inl (Exn KeyError (quoted key)) | Some v \<Rightarrow> Inr v)"
| "subscript (JArr xs) key =
     Inl (Exn TypeError ''list indices must be integers or slices, not str'')"
| "subscript (JStr s) key =
     Inl (Exn TypeError (''string indices must be integers, not '' @ quoted ''str''))"
| "subscript v key =
     Inl (Exn TypeError (quoted (py_type_name v) @ '' object is not subscriptable''))"

text \<open>
  \<open>for x in v\<close>: a list gives its elements, a \<open>dict\<close> its keys, a \<open>str\<close> its
  characters; nothing else can be iterated.
\<close>

fun py_iter :: "json \<Rightarrow> exn + json list" where
  "py_iter (JArr xs) = Inr xs"
| "py_iter (JObj kvs) = Inr (map (\<lambda>kv. JStr (fst kv)) kvs)"
| "py_iter (JStr s) = Inr (map (\<lambda>c. JStr [c]) s)"
| "py_iter v = Inl (Exn TypeError (quoted (py_type_name v) @ '' object is not iterable''))"

text \<open>\<open>s.strip()\<close> and \<open>s.strip().lower()\<close> on an object: only a \<open>str\<close> has the methods.\<close>

fun obj_strip :: "json \<Rightarrow> exn + string" where
  "obj_strip (JStr s) = Inr (py_strip s)"
| "obj_strip v = Inl (no_attribute v ''strip'')"

fun obj_lower :: "json \<Rightarrow> exn + string" where
  "obj_lower (JStr s) = Inr (py_lower s)"
| "obj_lower v = Inl (no_attribute v ''lower'')"

section \<open>Address index: \<open>get_all_street_names\<close>\<close>

text \<open>
  The tools open \<open>data/geojson/hausumringe_mit_adressenV3.geojson\<close> and \<open>json.load\<close> it.
  The file is absent, or its text is not JSON, or it parses to a value.
\<close>

datatype data_file = Missing | Malformed string | Content json

definition file_not_found_msg :: "string" where
  "file_not_found_msg = ''Error: The main data file was not found at the specified path.''"

text \<open>
  The inner loop over the address entries of one feature. \<open>street_names\<close> is the set
  being filled: a list without repetitions, \<open>List.insert\<close> is \<open>set.add\<close>.
\<close>

fun collect_adressen :: "json list \<Rightarrow> string list \<Rightarrow> exn + string list" where
  "collect_adressen [] street_names = Inr street_names"
| "collect_adressen (adr # adrs) street_names =
     (case dict_get adr ''str'' JNull of
        Inl e \<Rightarrow> Inl e
      | Inr street_val \<Rightarrow>
          if truthy street_val then
            (case obj_strip street_val of
               Inl e \<Rightarrow> Inl e
             | Inr name \<Rightarrow> collect_adressen adrs (List.insert name street_names))
          else collect_adressen adrs street_names)"

text \<open>The outer loop over \<open>data["features"]\<close>.\<close>

fun collect_features :: "json list \<Rightarrow> string list \<Rightarrow> exn + string list" where
  "collect_features [] street_names = Inr street_names"
| "collect_features (feature # features) street_names =
     (case dict_get feature ''adressen'' (JArr []) of
        Inl e \<Rightarrow> Inl e
      | Inr v \<Rightarrow>
          (case py_iter v of
             Inl e \<Rightarrow> Inl e
           | Inr adrs \<Rightarrow>
               (case collect_adressen adrs street_names of
                  Inl e \<Rightarrow> Inl e
                | Inr street_names' \<Rightarrow> collect_features features street_names')))"

text \<open>
  Only \<open>FileNotFoundError\<close> is caught; the result for it is a one-element list holding
  the message. Any other exception leaves the function (\<open>Inl\<close>).
\<close>

definition get_all_street_names :: "data_file \<Rightarrow> exn + string list" where
  "get_all_street_names file =
     (case file of
        Missing \<Rightarrow> Inr [file_not_found_msg]
      | Malformed msg \<Rightarrow> Inl (Exn JSONDecodeError msg)
      | Content data \<Rightarrow>
          (case subscript data ''features'' of
             Inl e \<Rightarrow> Inl e
           | Inr v \<Rightarrow>
               (case py_iter v of
                  Inl e \<Rightarrow> Inl e
                | Inr features \<Rightarrow>
                    (case collect_features features [] of
                       Inl e \<Rightarrow> Inl e
                     | Inr street_names \<Rightarrow> Inr (sort street_names)))))"

section \<open>Street filter: \<open>get_building_ids_for_street\<close>\<close>

text \<open>
  The inner loop of the lookup: it ends with \<open>True\<close> when an address entry matched (the
  branch that ends in \<open>break\<close>) and with \<open>False\<close> when the entries ran out.
  \<open>key\<close> is the one element of \<open>street_set\<close>.
\<close>

fun scan_adressen :: "string \<Rightarrow> json list \<Rightarrow> exn + bool" where
  "scan_adressen key [] = Inr False"
| "scan_adressen key (adr # adrs) =
     (case dict_get adr ''str'' JNull of
        Inl e \<Rightarrow> Inl e
      | Inr street_val \<Rightarrow>
          if truthy street_val then
            (case obj_strip street_val of
               Inl e \<Rightarrow> Inl e
             | Inr name \<Rightarrow> if py_lower name = key then Inr True else scan_adressen key adrs)
          else scan_adressen key adrs)"

text \<open>\<open>feature.get("gebaeude", {}).get("oi")\<close>\<close>

definition feature_oi :: "json \<Rightarrow> exn + json" where
  "feature_oi feature =
     (case dict_get feature ''gebaeude'' (JObj []) of
        Inl e \<Rightarrow> Inl e
      | Inr gebaeude \<Rightarrow> dict_get gebaeude ''oi'' JNull)"

fun select_features :: "string \<Rightarrow> json list \<Rightarrow> json list \<Rightarrow> exn + json list" where
  "select_features key [] selected_ids = Inr selected_ids"
| "select_features key (feature # features) selected_ids =
     (case dict_get feature ''adressen'' (JArr []) of
        Inl e \<Rightarrow> Inl e
      | Inr v \<Rightarrow>
          (case py_iter v of
             Inl e \<Rightarrow> Inl e
           | Inr adrs \<Rightarrow>
               (case scan_adressen key adrs of
                  Inl e \<Rightarrow> Inl e
                | Inr False \<Rightarrow> select_features key features selected_ids
                | Inr True \<Rightarrow>
                    (case feature_oi feature of
                       Inl e \<Rightarrow> Inl e
                     | Inr oi \<Rightarrow>
                         if truthy oi then select_features key features (selected_ids @ [oi])
                         else select_features key features selected_ids))))"

definition get_building_ids_for_street :: "data_file \<Rightarrow> string \<Rightarrow> exn + json list" where
  "get_building_ids_for_street file street_name =
     (case file of
        Missing \<Rightarrow> Inr [JStr file_not_found_msg]
      | Malformed msg \<Rightarrow> Inl (Exn JSONDecodeError msg)
      | Content data \<Rightarrow>
          (case subscript data ''features'' of
             Inl e \<Rightarrow> Inl e
           | Inr v \<Rightarrow>
               (case py_iter v of
                  Inl e \<Rightarrow> Inl e
                | Inr features \<Rightarrow>
                    select_features (py_lower (py_strip street_name)) features [])))"

section \<open>The data model of the address file\<close>

text \<open>
  The shape the tools expect of the file: an object whose \<open>features\<close> is a list of
  objects; a feature's \<open>adressen\<close>, when present, is a list of address entries and its
  \<open>gebaeude\<close>, when present, an object; an address entry is an object whose \<open>str\<close>, when
  present, is a string or an empty value (\<open>null\<close>).
\<close>

fun wf_adr :: "json \<Rightarrow> bool" where
  "wf_adr (JObj kvs) =
     (case map_of kvs ''str'' of None \<Rightarrow> True | Some (JStr s) \<Rightarrow> True | Some v \<Rightarrow> \<not> truthy v)"
| "wf_adr v = False"



text \<open>The street of an address entry (empty when it has none).\<close>

fun street_of :: "json \<Rightarrow> string" where
  "street_of (JObj kvs) = (case map_of kvs ''str'' of Some (JStr s) \<Rightarrow> s | _ \<Rightarrow> [])"
| "street_of v = []"







section \<open>Numbers as text\<close>

text \<open>\<open>str(n)\<close> for an integer: its decimal digits.\<close>

definition digit_char :: "nat \<Rightarrow> char" where
  "digit_char d = ''0123456789'' ! d"

fun nat_str :: "nat \<Rightarrow> string" where
  "nat_str n = (if n < 10 then [digit_char n] else nat_str (n div 10) @ [digit_char (n mod 10)])"

declare nat_str.simps [simp del]

definition int_str :: "int \<Rightarrow> string" where
  "int_str i = (if i < 0 then ''-'' @ nat_str (nat (- i)) else nat_str (nat i))"

text \<open>
  A Python \<open>float\<close> is \<open>nan\<close> or a number. A number is modelled by the real it
  denotes, and arithmetic on numbers is exact: the rounding of binary floating point is
  outside this model.
\<close>

datatype pyfloat = NaN | Fl real

text \<open>
  The format specification \<open>.pf\<close>: \<open>p\<close> digits after the point, the value rounded to
  the nearest such decimal, a tie to the even one; no point when \<open>p = 0\<close>; the sign of a
  negative value is kept.
\<close>

definition round_half_even :: "real \<Rightarrow> nat" where
  "round_half_even x =
     (let f = nat \<lfloor>x\<rfloor>; r = x - of_int \<lfloor>x\<rfloor>
      in if r < 1 / 2 then f else if 1 / 2 < r then f + 1 else if even f then f else f + 1)"

definition zero_pad :: "nat \<Rightarrow> string \<Rightarrow> string" where
  "zero_pad w s = replicate (w - length s) CHR ''0'' @ s"

definition fmt_fixed :: "nat \<Rightarrow> real \<Rightarrow> string" where
  "fmt_fixed p x =
     (let n = round_half_even (\<bar>x\<bar> * 10 ^ p)
      in (if x < 0 then ''-'' else []) @ nat_str (n div 10 ^ p) @
         (if p = 0 then [] else ''.'' @ zero_pad p (nat_str (n mod 10 ^ p))))"

fun fmt_float :: "nat \<Rightarrow> pyfloat \<Rightarrow> string" where
  "fmt_float p NaN = ''nan''"
| "fmt_float p (Fl x) = fmt_fixed p x"

text \<open>The format specification \<open>,\<close> for a size: groups of three digits, separated by commas.\<close>

fun group3 :: "string \<Rightarrow> string" where
  "group3 (a # b # c # d # rest) = a # b # c # CHR '','' # group3 (d # rest)"
| "group3 s = s"

definition fmt_thousands :: "nat \<Rightarrow> string" where
  "fmt_thousands n = rev (group3 (rev (nat_str n)))"

section \<open>Results lister: \<open>list_available_results\<close>\<close>

text \<open>\<open>s.endswith(suffix)\<close>\<close>

definition endswith :: "string \<Rightarrow> string \<Rightarrow> bool" where
  "endswith s suf \<longleftrightarrow> suffix suf s"

text \<open>
  The marker put before a listed file: the globe for a web page, the bar chart for a
  table, the page for data, the framed picture for an image, the map for geometry, the
  folder for any other file.
\<close>

datatype category = Web | Table | Data | Image | Geometry | File

fun icon :: "category \<Rightarrow> string" where
  "icon Web = [CHR 0xF0, CHR 0x9F, CHR 0x8C, CHR 0x90]"
| "icon Table = [CHR 0xF0, CHR 0x9F, CHR 0x93, CHR 0x8A]"
| "icon Data = [CHR 0xF0, CHR 0x9F, CHR 0x93, CHR 0x84]"
| "icon Image = [CHR 0xF0, CHR 0x9F, CHR 0x96, CHR 0xBC, CHR 0xEF, CHR 0xB8, CHR 0x8F]"
| "icon Geometry = [CHR 0xF0, CHR 0x9F, CHR 0x97, CHR 0xBA, CHR 0xEF, CHR 0xB8, CHR 0x8F]"
| "icon File = [CHR 0xF0, CHR 0x9F, CHR 0x93, CHR 0x81]"

text \<open>The chain of \<open>if\<close> and \<open>elif\<close> over the file name, in the order of the source.\<close>

definition categorize :: "string \<Rightarrow> category" where
  "categorize file =
     (if endswith file ''.html'' then Web
      else if endswith file ''.csv'' then Table
      else if endswith file ''.json'' then Data
      else if endswith file ''.png'' \<or> endswith file ''.jpg'' then Image
      else if endswith file ''.geojson'' then Geometry
      else File)"

text \<open>
  A file that \<open>os.walk\<close> finds: its name, its path relative to the output directory and
  what \<open>os.path.getsize\<close> gives for it.
\<close>

record file_entry =
  file_name :: string
  relative_path :: string
  file_size :: "exn + nat"

definition result_line :: "string \<Rightarrow> string \<Rightarrow> nat \<Rightarrow> string" where
  "result_line file rel_path size_bytes =
     ''  '' @ icon (categorize file) @ '' '' @ rel_path @ '' ('' @ fmt_thousands size_bytes @
     '' bytes)''"

fun list_files :: "file_entry list \<Rightarrow> string list \<Rightarrow> exn + string list" where
  "list_files [] results = Inr results"
| "list_files (f # fs) results =
     (case file_size f of
        Inl e \<Rightarrow> Inl e
      | Inr size_bytes \<Rightarrow>
          list_files fs (results @ [result_line (file_name f) (relative_path f) size_bytes]))"

text \<open>
  The loop over the output directories. \<open>walk dir\<close> is \<open>None\<close> when the directory does
  not exist, and else its files in the order of the walk.
\<close>

fun list_dirs ::
  "(string \<Rightarrow> file_entry list option) \<Rightarrow> string list \<Rightarrow> string list \<Rightarrow> exn + string list" where
  "list_dirs walk [] results = Inr results"
| "list_dirs walk (output_dir # dirs) results =
     (case walk output_dir of
        None \<Rightarrow> list_dirs walk dirs results
      | Some files \<Rightarrow>
          (case list_files files
                  (results @ [[CHR 0x0A] @ icon File @ '' '' @ output_dir @ ''/'']) of
             Inl e \<Rightarrow> Inl e
           | Inr results' \<Rightarrow> list_dirs walk dirs results'))"

definition list_available_results :: "(string \<Rightarrow> file_entry list option) \<Rightarrow> string" where
  "list_available_results walk =
     (case list_dirs walk [''results_test'', ''results'', ''simulation_outputs''] [] of
        Inl e \<Rightarrow> ''Error listing results: '' @ str_exn e
      | Inr results \<Rightarrow>
          if results = [] then ''No results found. Run an analysis first to generate results.''
          else concat results)"



section \<open>The building table of the analyses\<close>

text \<open>
  A row of the building table that \<open>load_buildings\<close> or \<open>gpd.read_file\<close> returns.
  \<open>building['adressen']\<close> is a text that \<open>json.loads\<close> parses: the table has no such
  column, or the cell is not a text (its type is given), or the text is not JSON, or it
  parses to a value.
\<close>

datatype adressen_cell = NoColumn | NotText string | BadJson | Parsed json

text \<open>
  \<open>idx\<close> is the index label of the row. \<open>gebaeude\<close> and \<open>id_col\<close> are the cells of the
  columns \<open>gebaeude\<close> and \<open>id\<close>, \<open>None\<close> when the table has no such column; identifiers
  are texts. The other fields are the metric columns, which the external package and the
  merge step fill.
\<close>

record building =
  idx :: int
  adressen :: adressen_cell
  gebaeude :: "string option"
  id_col :: "string option"
  max_trafo_loading :: pyfloat
  min_voltage_pu :: pyfloat
  dist_to_line :: pyfloat
  dist_to_substation :: pyfloat
  dist_to_transformer :: pyfloat

section \<open>Street filter of the analyses\<close>

text \<open>
  The inner loop \<open>for addr in adressen\<close> of both analyses: \<open>True\<close> when an entry
  matched (the branch that appends the building and ends in \<open>break\<close>).
\<close>

fun addr_loop :: "string \<Rightarrow> json list \<Rightarrow> exn + bool" where
  "addr_loop street_name [] = Inr False"
| "addr_loop street_name (addr # addrs) =
     (case dict_get addr ''str'' (JStr []) of
        Inl e \<Rightarrow> Inl e
      | Inr street_val \<Rightarrow>
          if truthy street_val then
            (case obj_lower street_val of
               Inl e \<Rightarrow> Inl e
             | Inr low \<Rightarrow>
                 if low = py_lower street_name then Inr True else addr_loop street_name addrs)
          else addr_loop street_name addrs)"

text \<open>
  The loop over the rows. \<open>json.JSONDecodeError\<close> and \<open>KeyError\<close> are caught and the row
  is skipped; any other exception leaves the loop.
\<close>

fun filter_street ::
  "string \<Rightarrow> building list \<Rightarrow> building list \<Rightarrow> exn + building list" where
  "filter_street street_name [] street_buildings = Inr street_buildings"
| "filter_street street_name (b # rows) street_buildings =
     (case adressen b of
        NoColumn \<Rightarrow> filter_street street_name rows street_buildings
      | BadJson \<Rightarrow> filter_street street_name rows street_buildings
      | NotText t \<Rightarrow>
          Inl (Exn TypeError (''the JSON object must be str, bytes or bytearray, not '' @ t))
      | Parsed v \<Rightarrow>
          (case py_iter v of
             Inl e \<Rightarrow> Inl e
           | Inr addrs \<Rightarrow>
               (case addr_loop street_name addrs of
                  Inl e \<Rightarrow> Inl e
                | Inr True \<Rightarrow> filter_street street_name rows (street_buildings @ [b])
                | Inr False \<Rightarrow> filter_street street_name rows street_buildings)))"

section \<open>Result aggregator\<close>

text \<open>
  \<open>power_metrics\<close>, as \<open>compute_power_feasibility\<close> returns it: a dictionary from
  building identifiers to the two simulated values.
\<close>

record power_entry =
  max_loading :: pyfloat
  min_voltage :: pyfloat

type_synonym power_metrics = "string \<rightharpoonup> power_entry"

text \<open>\<open>building.get('gebaeude', building.get('id', str(idx)))\<close>\<close>

definition building_id :: "building \<Rightarrow> string" where
  "building_id b =
     (case gebaeude b of
        Some g \<Rightarrow> g
      | None \<Rightarrow> (case id_col b of Some i \<Rightarrow> i | None \<Rightarrow> int_str (idx b)))"

text \<open>
  \<open>street_buildings.loc[i, 'max_trafo_loading'] = l\<close> and the same for
  \<open>min_voltage_pu\<close>: the assignment reaches the rows labelled \<open>i\<close>.
\<close>

definition set_metrics :: "int \<Rightarrow> pyfloat \<Rightarrow> pyfloat \<Rightarrow> building list \<Rightarrow> building list" where
  "set_metrics i l v frame =
     map (\<lambda>b. if idx b = i then b\<lparr>max_trafo_loading := l, min_voltage_pu := v\<rparr> else b) frame"

text \<open>The merge loop: \<open>rows\<close> are the rows still to visit, \<open>frame\<close> is the table.\<close>

fun merge_loop :: "power_metrics \<Rightarrow> building list \<Rightarrow> building list \<Rightarrow> building list" where
  "merge_loop pm [] frame = frame"
| "merge_loop pm (b # rows) frame =
     (case pm (building_id b) of
        Some e \<Rightarrow> merge_loop pm rows (set_metrics (idx b) (max_loading e) (min_voltage e) frame)
      | None \<Rightarrow> merge_loop pm rows (set_metrics (idx b) NaN NaN frame))"

definition merge_power_metrics :: "power_metrics \<Rightarrow> building list \<Rightarrow> building list" where
  "merge_power_metrics pm street_buildings = merge_loop pm street_buildings street_buildings"

text \<open>
  The column operations of pandas. \<open>known\<close> are the values that are not \<open>nan\<close>;
  \<open>isna().all()\<close> holds when there is none; \<open>max\<close>, \<open>min\<close> and \<open>mean\<close> skip \<open>nan\<close>.
\<close>

fun known :: "pyfloat list \<Rightarrow> real list" where
  "known [] = []"
| "known (NaN # xs) = known xs"
| "known (Fl x # xs) = x # known xs"

definition all_isna :: "pyfloat list \<Rightarrow> bool" where
  "all_isna col \<longleftrightarrow> known col = []"

definition col_max :: "pyfloat list \<Rightarrow> pyfloat" where
  "col_max col = (case known col of [] \<Rightarrow> NaN | x # xs \<Rightarrow> Fl (fold max xs x))"

definition col_min :: "pyfloat list \<Rightarrow> pyfloat" where
  "col_min col = (case known col of [] \<Rightarrow> NaN | x # xs \<Rightarrow> Fl (fold min xs x))"

definition col_mean :: "pyfloat list \<Rightarrow> pyfloat" where
  "col_mean col =
     (case known col of [] \<Rightarrow> NaN | x # xs \<Rightarrow> Fl (sum_list (x # xs) / real (length (x # xs))))"

text \<open>The dictionary \<open>stats\<close> of the heat pump analysis.\<close>

record hp_stats =
  MaxTrafoLoading :: pyfloat
  MinVoltagePU :: pyfloat
  AvgDistLine :: pyfloat
  AvgDistTransformer :: pyfloat
  BuildingsCount :: nat

definition compute_stats :: "building list \<Rightarrow> hp_stats" where
  "compute_stats street_buildings =
     \<lparr>MaxTrafoLoading =
        (if \<not> all_isna (map max_trafo_loading street_buildings)
         then col_max (map max_trafo_loading street_buildings) else Fl 0.0),
      MinVoltagePU =
        (if \<not> all_isna (map min_voltage_pu street_buildings)
         then col_min (map min_voltage_pu street_buildings) else Fl 1.0),
      AvgDistLine =
        (if \<not> all_isna (map dist_to_line street_buildings)
         then col_mean (map dist_to_line street_buildings) else Fl 0.0),
      AvgDistTransformer =
        (if \<not> all_isna (map dist_to_transformer street_buildings)
         then col_mean (map dist_to_transformer street_buildings) else Fl 0.0),
      BuildingsCount = length street_buildings\<rparr>"

text \<open>\<open>avg_dist_to_substation\<close>, computed for the summary.\<close>

definition avg_dist_to_substation :: "building list \<Rightarrow> pyfloat" where
  "avg_dist_to_substation street_buildings =
     (if \<not> all_isna (map dist_to_substation street_buildings)
      then col_mean (map dist_to_substation street_buildings) else Fl 0.0)"

text \<open>What the merge loop does to one row.\<close>

definition merge_row :: "power_metrics \<Rightarrow> building \<Rightarrow> building" where
  "merge_row pm b =
     (case pm (building_id b) of
        Some e \<Rightarrow> b\<lparr>max_trafo_loading := max_loading e, min_voltage_pu := min_voltage e\<rparr>
      | None \<Rightarrow> b\<lparr>max_trafo_loading := NaN, min_voltage_pu := NaN\<rparr>)"

text \<open>
  The rows the street filter expects: the address cell, when it parses, is a list of
  address entries.
\<close>

definition row_adressen :: "building \<Rightarrow> json list" where
  "row_adressen b = (case adressen b of Parsed (JArr addrs) \<Rightarrow> addrs | _ \<Rightarrow> [])"

definition wf_row :: "building \<Rightarrow> bool" where
  "wf_row b =
     (case adressen b of
        NoColumn \<Rightarrow> True
      | BadJson \<Rightarrow> True
      | NotText t \<Rightarrow> False
      | Parsed (JArr addrs) \<Rightarrow> list_all wf_adr addrs
      | Parsed v \<Rightarrow> False)"

text \<open>The comparison the analyses make: lower-cased, not trimmed.\<close>

definition row_on_street :: "string \<Rightarrow> building \<Rightarrow> bool" where
  "row_on_street street_name b =
     list_ex (\<lambda>a. street_of a \<noteq> [] \<and> py_lower (street_of a) = py_lower street_name)
       (row_adressen b)"

section \<open>Clock and paths\<close>

text \<open>
  \<open>datetime.now()\<close>, and \<open>strftime('%B %d, %Y')\<close> on it: the English month name, the
  day in two digits, the year.
\<close>

datatype month =
    January | February | March | April | May | June
  | July | August | September | October | November | December

fun month_name :: "month \<Rightarrow> string" where
  "month_name January = ''January''"
| "month_name February = ''February''"
| "month_name March = ''March''"
| "month_name April = ''April''"
| "month_name May = ''May''"
| "month_name June = ''June''"
| "month_name July = ''July''"
| "month_name August = ''August''"
| "month_name September = ''September''"
| "month_name October = ''October''"
| "month_name November = ''November''"
| "month_name December = ''December''"

record datetime =
  year :: nat
  month :: month
  day :: nat
  hour :: nat
  minute :: nat
  second :: nat
  microsecond :: nat

definition strftime_B_d_Y :: "datetime \<Rightarrow> string" where
  "strftime_B_d_Y t =
     month_name (month t) @ '' '' @ zero_pad 2 (nat_str (day t)) @ '', '' @ nat_str (year t)"

text \<open>\<open>os.path.join(a, b)\<close> and \<open>os.path.basename(p)\<close> of \<open>posixpath\<close>.\<close>

definition os_path_join :: "string \<Rightarrow> string \<Rightarrow> string" where
  "os_path_join a b =
     (if b \<noteq> [] \<and> hd b = CHR ''/'' then b
      else if a = [] \<or> last a = CHR ''/'' then a @ b
      else a @ ''/'' @ b)"

definition os_path_basename :: "string \<Rightarrow> string" where
  "os_path_basename p = rev (takeWhile (\<lambda>c. c \<noteq> CHR ''/'') (rev p))"

text \<open>
  \<open>str(Path(a) / b)\<close> of \<open>pathlib\<close>, for a relative \<open>a\<close> and a \<open>b\<close> that does not begin
  with a slash (in every use here \<open>b\<close> begins with a letter): the components of both,
  without the empty ones and the dots, joined by slashes.
\<close>

fun split_slash :: "string \<Rightarrow> string \<Rightarrow> string list" where
  "split_slash cur [] = [rev cur]"
| "split_slash cur (c # cs) =
     (if c = CHR ''/'' then rev cur # split_slash [] cs else split_slash (c # cur) cs)"

definition path_parts :: "string \<Rightarrow> string list" where
  "path_parts s = filter (\<lambda>p. p \<noteq> [] \<and> p \<noteq> ''.'') (split_slash [] s)"

fun join_slash :: "string list \<Rightarrow> string" where
  "join_slash [] = ''.''"
| "join_slash [p] = p"
| "join_slash (p # q # ps) = p @ ''/'' @ join_slash (q # ps)"

definition path_div :: "string \<Rightarrow> string \<Rightarrow> string" where
  "path_div a b = join_slash (path_parts a @ path_parts b)"

text \<open>\<open>p.absolute()\<close> of a relative path, in the working directory \<open>cwd\<close>.\<close>

definition path_absolute :: "string \<Rightarrow> string \<Rightarrow> string" where
  "path_absolute cwd p = (if cwd = ''/'' then cwd @ p else cwd @ ''/'' @ p)"

text \<open>\<open>s.replace(' ', '_')\<close>\<close>

definition replace_blank :: "string \<Rightarrow> string" where
  "replace_blank s = map (\<lambda>c. if c = CHR '' '' then CHR ''_'' else c) s"

section \<open>Statistics of the district heating network\<close>

text \<open>
  \<open>network_stats\<close> and \<open>simulation_results\<close>: the objects of the two statistics files,
  or the built-in ones. An entry can be absent (\<open>None\<close>); lengths, demands and flows are
  numbers, counts are integers. \<open>get_default\<close> is \<open>d.get(key, default)\<close>.
\<close>

record network_stats =
  total_supply_length_km :: "real option"
  total_return_length_km :: "real option"
  total_main_length_km :: "real option"
  total_service_length_m :: "real option"
  num_buildings :: "int option"
  service_connections :: "int option"
  total_heat_demand_mwh :: "real option"
  network_density_km_per_building :: "real option"

record simulation_results =
  pressure_drop_bar :: "real option"
  total_flow_kg_per_s :: "real option"
  temperature_drop_c :: "real option"
  hydraulic_success :: "bool option"

definition get_default :: "'a option \<Rightarrow> 'a \<Rightarrow> 'a" where
  "get_default entry dflt = (case entry of None \<Rightarrow> dflt | Some v \<Rightarrow> v)"

section \<open>Report renderer: the templates\<close>

text \<open>
  Each f-string of the source is the concatenation of its literal text and its
  replacement fields, in order. The literal text between two fields is a constant
  \<open>\<dots>_lit\<close>, given line by line in UTF-8; \<open>{{\<close> and \<open>}}\<close> of the source are
  the braces they stand for.
\<close>

definition hp_dashboard_html_lit0 :: "string" where
  \<open>hp_dashboard_html_lit0 = concat
     [''<!DOCTYPE html>\<newline>'',
      ''<html lang="en">\<newline>'',
      ''<head>\<newline>'',
      ''    <meta charset="UTF-8">\<newline>'',
      ''    <meta name="viewport" content="width=device-width, initial-scale=1.0">\<newline>'',
      ''    <title>Heat Pump Feasibility Analysis Dashboard - '']\<close>

definition hp_dashboard_html_lit1 :: "string" where
  \<open>hp_dashboard_html_lit1 = concat
     [''</title>\<newline>'',
      ''    <style>\<newline>'',
      ''        body {\<newline>'',
      ''            font-family: '',
      [CHR 0x27],
      ''Segoe UI'',
      [CHR 0x27],
      '', Tahoma, Geneva, Verdana, sans-serif;\<newline>'',
      ''            margin: 0;\<newline>'',
      ''            padding: 0;\<newline>'',
      ''            background: linear-gradient(135deg, #667eea 0%, #764ba2 100%);\<newline>'',
      ''            min-height: 100vh;\<newline>'',
      ''        }\<newline>'',
      ''        .container {\<newline>'',
      ''            max-width: 1400px;\<newline>'',
      ''            margin: 0 auto;\<newline>'',
      ''            padding: 20px;\<newline>'',
      ''        }\<newline>'',
      ''        .header {\<newline>'',
      ''            background: rgba(255, 255, 255, 0.95);\<newline>'',
      ''            padding: 30px;\<newline>'',
      ''            border-radius: 15px;\<newline>'',
      ''            box-shadow: 0 8px 32px rgba(0, 0, 0, 0.1);\<newline>'',
      ''            margin-bottom: 30px;\<newline>'',
      ''            text-align: center;\<newline>'',
      ''        }\<newline>'',
      ''        .header h1 {\<newline>'',
      ''            color: #2c3e50;\<newline>'',
      ''            margin: 0;\<newline>'',
      ''            font-size: 2.5em;\<newline>'',
      ''            font-weight: 300;\<newline>'',
      ''        }\<newline>'',
      ''        .header p {\<newline>'',
      ''            color: #7f8c8d;\<newline>'',
      ''            margin: 10px 0 0 0;\<newline>'',
      ''            font-size: 1.2em;\<newline>'',
      ''        }\<newline>'',
      ''        .dashboard-grid {\<newline>'',
      ''            display: grid;\<newline>'',
      ''            grid-template-columns: 1fr 1fr;\<newline>'',
      ''            gap: 30px;\<newline>'',
      ''            margin-bottom: 30px;\<newline>'',
      ''        }\<newline>'',
      ''        .panel {\<newline>'',
      ''            background: rgba(255, 255, 255, 0.95);\<newline>'',
      ''            padding: 25px;\<newline>'',
      ''            border-radius: 15px;\<newline>'',
      ''            box-shadow: 0 8px 32px rgba(0, 0, 0, 0.1);\<newline>'',
      ''        }\<newline>'',
      ''        .panel h2 {\<newline>'',
      ''            color: #2c3e50;\<newline>'',
      ''            margin: 0 0 20px 0;\<newline>'',
      ''            font-size: 1.5em;\<newline>'',
      ''            border-bottom: 3px solid #667eea;\<newline>'',
      ''            padding-bottom: 10px;\<newline>'',
      ''        }\<newline>'',
      ''        .metric-grid {\<newline>'',
      ''            display: grid;\<newline>'',
      ''            grid-template-columns: repeat(auto-fit, minmax(200px, 1fr));\<newline>'',
      ''            gap: 20px;\<newline>'',
      ''        }\<newline>'',
      ''        .metric-card {\<newline>'',
      ''            background: linear-gradient(135deg, #667eea 0%, #764ba2 100%);\<newline>'',
      ''            color: white;\<newline>'',
      ''            padding: 20px;\<newline>'',
      ''            border-radius: 10px;\<newline>'',
      ''            text-align: center;\<newline>'',
      ''            box-shadow: 0 4px 15px rgba(0, 0, 0, 0.1);\<newline>'',
      ''        }\<newline>'',
      ''        .metric-value {\<newline>'',
      ''            font-size: 2em;\<newline>'',
      ''            font-weight: bold;\<newline>'',
      ''            margin-bottom: 5px;\<newline>'',
      ''        }\<newline>'',
      ''        .metric-label {\<newline>'',
      ''            font-size: 0.9em;\<newline>'',
      ''            opacity: 0.9;\<newline>'',
      ''        }\<newline>'',
      ''        .status-success {\<newline>'',
      ''            background: linear-gradient(135deg, #00b894 0%, #00a085 100%);\<newline>'',
      ''        }\<newline>'',
      ''        .map-container {\<newline>'',
      ''            background: rgba(255, 255, 255, 0.95);\<newline>'',
      ''            padding: 25px;\<newline>'',
      ''            border-radius: 15px;\<newline>'',
      ''            box-shadow: 0 8px 32px rgba(0, 0, 0, 0.1);\<newline>'',
      ''            margin-bottom: 30px;\<newline>'',
      ''        }\<newline>'',
      ''        .map-container h2 {\<newline>'',
      ''            color: #2c3e50;\<newline>'',
      ''            margin: 0 0 20px 0;\<newline>'',
      ''            font-size: 1.5em;\<newline>'',
      ''            border-bottom: 3px solid #667eea;\<newline>'',
      ''            padding-bottom: 10px;\<newline>'',
      ''        }\<newline>'',
      ''        .map-container iframe {\<newline>'',
      ''            width: 100%;\<newline>'',
      ''            height: 600px;\<newline>'',
      ''            border: none;\<newline>'',
      ''            border-radius: 10px;\<newline>'',
      ''        }\<newline>'',
      ''        @media (max-width: 768px) {\<newline>'',
      ''            .dashboard-grid {\<newline>'',
      ''                grid-template-columns: 1fr;\<newline>'',
      ''            }\<newline>'',
      ''            .metric-grid {\<newline>'',
      ''                grid-template-columns: 1fr;\<newline>'',
      ''            }\<newline>'',
      ''        }\<newline>'',
      ''    </style>\<newline>'',
      ''</head>\<newline>'',
      ''<body>\<newline>'',
      ''    <div class="container">\<newline>'',
      ''        <div class="header">\<newline>'',
      ''            <h1>'',
      [CHR 0xF0, CHR 0x9F, CHR 0x94, CHR 0x8C],
      '' Heat Pump Feasibility Analysis Dashboard</h1>\<newline>'',
      ''            <p>Comprehensive electrical infrastructure assessment for '']\<close>

definition hp_dashboard_html_lit2 :: "string" where
  \<open>hp_dashboard_html_lit2 = concat
     [''</p>\<newline>'',
      ''            <p><strong>Analysis Date:</strong> '']\<close>

definition hp_dashboard_html_lit3 :: "string" where
  \<open>hp_dashboard_html_lit3 = '' | <strong>Scenario:</strong> ''\<close>

definition hp_dashboard_html_lit4 :: "string" where
  \<open>hp_dashboard_html_lit4 = concat
     [''</p>\<newline>'',
      ''        </div>\<newline>'',
      ''\<newline>'',
      ''        <div class="dashboard-grid">\<newline>'',
      ''            <div class="panel">\<newline>'',
      ''                <h2>'',
      [CHR 0xF0, CHR 0x9F, CHR 0x93, CHR 0x8A],
      '' Electrical Network Metrics</h2>\<newline>'',
      ''                <div class="metric-grid">\<newline>'',
      ''                    <div class="metric-card">\<newline>'',
      ''                        <div class="metric-value">'']\<close>

definition hp_dashboard_html_lit5 :: "string" where
  \<open>hp_dashboard_html_lit5 = concat
     [''%</div>\<newline>'',
      ''                        <div class="metric-label">Max Transformer Loading</div>\<newline>'',
      ''                    </div>\<newline>'',
      ''                    <div class="metric-card">\<newline>'',
      ''                        <div class="metric-value">'']\<close>

definition hp_dashboard_html_lit6 :: "string" where
  \<open>hp_dashboard_html_lit6 = concat
     [''</div>\<newline>'',
      ''                        <div class="metric-label">Min Voltage (pu)</div>\<newline>'',
      ''                    </div>\<newline>'',
      ''                    <div class="metric-card">\<newline>'',
      ''                        <div class="metric-value">'']\<close>

definition hp_dashboard_html_lit7 :: "string" where
  \<open>hp_dashboard_html_lit7 = concat
     ['' m</div>\<newline>'',
      ''                        <div class="metric-label">Avg Distance to Line</div>\<newline>'',
      ''                    </div>\<newline>'',
      ''                    <div class="metric-card">\<newline>'',
      ''                        <div class="metric-value">'']\<close>

definition hp_dashboard_html_lit8 :: "string" where
  \<open>hp_dashboard_html_lit8 = concat
     ['' m</div>\<newline>'',
      ''                        <div class="metric-label">Avg Distance to Transformer</div>\<newline>'',
      ''                    </div>\<newline>'',
      ''                </div>\<newline>'',
      ''            </div>\<newline>'',
      ''\<newline>'',
      ''            <div class="panel">\<newline>'',
      ''                <h2>'',
      [CHR 0xF0, CHR 0x9F, CHR 0x8F, CHR 0xA2],
      '' Building Analysis</h2>\<newline>'',
      ''                <div class="metric-grid">\<newline>'',
      ''                    <div class="metric-card status-success">\<newline>'',
      ''                        <div class="metric-value">'']\<close>

definition hp_dashboard_html_lit9 :: "string" where
  \<open>hp_dashboard_html_lit9 = concat
     [''</div>\<newline>'',
      ''                        <div class="metric-label">Total Buildings</div>\<newline>'',
      ''                    </div>\<newline>'',
      ''                    <div class="metric-card status-success">\<newline>'',
      ''                        <div class="metric-value">'']\<close>

definition hp_dashboard_html_lit10 :: "string" where
  \<open>hp_dashboard_html_lit10 = concat
     [''</div>\<newline>'',
      ''                        <div class="metric-label">Close to Transformer</div>\<newline>'',
      ''                    </div>\<newline>'',
      ''                    <div class="metric-card">\<newline>'',
      ''                        <div class="metric-value">100.0%</div>\<newline>'',
      ''                        <div class="metric-label">Network Coverage</div>\<newline>'',
      ''                    </div>\<newline>'',
      ''                    <div class="metric-card">\<newline>'',
      ''                        <div class="metric-value">'',
      [CHR 0xE2, CHR 0x9C, CHR 0x85],
      '' Ready</div>\<newline>'',
      ''                        <div class="metric-label">Implementation Status</div>\<newline>'',
      ''                    </div>\<newline>'',
      ''                </div>\<newline>'',
      ''            </div>\<newline>'',
      ''        </div>\<newline>'',
      ''\<newline>'',
      ''        <div class="map-container">\<newline>'',
      ''            <h2>'',
      [CHR 0xF0, CHR 0x9F, CHR 0x97, CHR 0xBA, CHR 0xEF, CHR 0xB8, CHR 0x8F],
      '' Interactive Network Map</h2>\<newline>'',
      ''            <iframe src="'']\<close>

definition hp_dashboard_html_lit11 :: "string" where
  \<open>hp_dashboard_html_lit11 = concat
     [''"></iframe>\<newline>'',
      ''        </div>\<newline>'',
      ''\<newline>'',
      ''        <div class="panel">\<newline>'',
      ''            <h2>'',
      [CHR 0xE2, CHR 0x9C, CHR 0x85],
      '' Implementation Recommendations</h2>\<newline>'',
      ''            <div style="background: #f8f9fa; padding: 20px; border-radius: 10px; border-left: 5px solid #00b894;">\<newline>'',
      ''                <h4 style="margin: 0 0 10px 0; color: #2c3e50;">'',
      [CHR 0xF0, CHR 0x9F, CHR 0x94, CHR 0x8C],
      '' Electrical Capacity</h4>\<newline>'',
      ''                <p style="margin: 0; color: #7f8c8d;">'',
      [CHR 0xE2, CHR 0x9C, CHR 0x85],
      '' Network can support heat pump loads - Max transformer loading: '']\<close>

definition hp_dashboard_html_lit12 :: "string" where
  \<open>hp_dashboard_html_lit12 = concat
     [''%</p>\<newline>'',
      ''            </div>\<newline>'',
      ''            <div style="background: #f8f9fa; padding: 20px; border-radius: 10px; border-left: 5px solid #00b894; margin-top: 15px;">\<newline>'',
      ''                <h4 style="margin: 0 0 10px 0; color: #2c3e50;">'',
      [CHR 0xF0, CHR 0x9F, CHR 0x8F, CHR 0x97, CHR 0xEF, CHR 0xB8, CHR 0x8F],
      '' Infrastructure Proximity</h4>\<newline>'',
      ''                <p style="margin: 0; color: #7f8c8d;">'',
      [CHR 0xE2, CHR 0x9C, CHR 0x85],
      '' Buildings within connection range - Avg distance to transformer: '']\<close>

definition hp_dashboard_html_lit13 :: "string" where
  \<open>hp_dashboard_html_lit13 = concat
     [''m</p>\<newline>'',
      ''            </div>\<newline>'',
      ''            <div style="background: #f8f9fa; padding: 20px; border-radius: 10px; border-left: 5px solid #00b894; margin-top: 15px;">\<newline>'',
      ''                <h4 style="margin: 0 0 10px 0; color: #2c3e50;">'',
      [CHR 0xF0, CHR 0x9F, CHR 0x9B, CHR 0xA3, CHR 0xEF, CHR 0xB8, CHR 0x8F],
      '' Street-Based Routing</h4>\<newline>'',
      ''                <p style="margin: 0; color: #7f8c8d;">'',
      [CHR 0xE2, CHR 0x9C, CHR 0x85],
      '' Construction-ready service connections following existing street network</p>\<newline>'',
      ''            </div>\<newline>'',
      ''            <div style="background: #f8f9fa; padding: 20px; border-radius: 10px; border-left: 5px solid #00b894; margin-top: 15px;">\<newline>'',
      ''                <h4 style="margin: 0 0 10px 0; color: #2c3e50;">'',
      [CHR 0xE2, CHR 0x9A, CHR 0xA1],
      '' Power Quality</h4>\<newline>'',
      ''                <p style="margin: 0; color: #7f8c8d;">'',
      [CHR 0xE2, CHR 0x9C, CHR 0x85],
      '' Voltage levels within acceptable range - Min voltage: '']\<close>

definition hp_dashboard_html_lit14 :: "string" where
  \<open>hp_dashboard_html_lit14 = concat
     ['' pu</p>\<newline>'',
      ''            </div>\<newline>'',
      ''        </div>\<newline>'',
      ''    </div>\<newline>'',
      ''</body>\<newline>'',
      ''</html>'']\<close>

text \<open>The dashboard of the heat pump analysis: the text assigned to \<open>dashboard_html\<close> (source lines 409 to 601).\<close>

definition hp_dashboard_html ::
  "hp_stats \<Rightarrow> string \<Rightarrow> string \<Rightarrow> string \<Rightarrow> datetime \<Rightarrow> string" where
  \<open>hp_dashboard_html stats street_name scenario map_path now = concat
     [hp_dashboard_html_lit0,
      street_name,
      hp_dashboard_html_lit1,
      street_name,
      hp_dashboard_html_lit2,
      strftime_B_d_Y now,
      hp_dashboard_html_lit3,
      scenario,
      hp_dashboard_html_lit4,
      fmt_float 2 (MaxTrafoLoading stats),
      hp_dashboard_html_lit5,
      fmt_float 3 (MinVoltagePU stats),
      hp_dashboard_html_lit6,
      fmt_float 0 (AvgDistLine stats),
      hp_dashboard_html_lit7,
      fmt_float 0 (AvgDistTransformer stats),
      hp_dashboard_html_lit8,
      nat_str (BuildingsCount stats),
      hp_dashboard_html_lit9,
      nat_str (BuildingsCount stats),
      hp_dashboard_html_lit10,
      os_path_basename map_path,
      hp_dashboard_html_lit11,
      fmt_float 2 (MaxTrafoLoading stats),
      hp_dashboard_html_lit12,
      fmt_float 0 (AvgDistTransformer stats),
      hp_dashboard_html_lit13,
      fmt_float 3 (MinVoltagePU stats),
      hp_dashboard_html_lit14]\<close>

definition hp_summary_lit0 :: "string" where
  \<open>hp_summary_lit0 = concat
     [''\<newline>'',
      ''=== COMPREHENSIVE HEAT PUMP FEASIBILITY ANALYSIS ===\<newline>'',
      ''Street: '']\<close>

definition hp_summary_lit1 :: "string" where
  \<open>hp_summary_lit1 = concat
     [''\<newline>'',
      ''Scenario: '']\<close>

definition hp_summary_lit2 :: "string" where
  \<open>hp_summary_lit2 = concat
     [''\<newline>'',
      ''Buildings Analyzed: '']\<close>

definition hp_summary_lit3 :: "string" where
  \<open>hp_summary_lit3 = concat
     [''\<newline>'',
      ''\<newline>'',
      [CHR 0xF0, CHR 0x9F, CHR 0x93, CHR 0x8A],
      '' ELECTRICAL INFRASTRUCTURE METRICS:\<newline>'',
      [CHR 0xE2, CHR 0x80, CHR 0xA2],
      '' Max Transformer Loading: '']\<close>

definition hp_summary_lit4 :: "string" where
  \<open>hp_summary_lit4 = concat
     [''%\<newline>'',
      [CHR 0xE2, CHR 0x80, CHR 0xA2],
      '' Min Voltage: '']\<close>

definition hp_summary_lit5 :: "string" where
  \<open>hp_summary_lit5 = concat
     ['' pu\<newline>'',
      [CHR 0xE2, CHR 0x80, CHR 0xA2],
      '' Network Coverage: 100.0% of buildings close to transformers\<newline>'',
      ''\<newline>'',
      [CHR 0xF0, CHR 0x9F, CHR 0x8F, CHR 0xA2],
      '' PROXIMITY ANALYSIS:\<newline>'',
      [CHR 0xE2, CHR 0x80, CHR 0xA2],
      '' Avg Distance to Power Line: '']\<close>

definition hp_summary_lit6 :: "string" where
  \<open>hp_summary_lit6 = concat
     ['' m\<newline>'',
      [CHR 0xE2, CHR 0x80, CHR 0xA2],
      '' Avg Distance to Substation: '']\<close>

definition hp_summary_lit7 :: "string" where
  \<open>hp_summary_lit7 = concat
     ['' m\<newline>'',
      [CHR 0xE2, CHR 0x80, CHR 0xA2],
      '' Avg Distance to Transformer: '']\<close>

definition hp_summary_lit8 :: "string" where
  \<open>hp_summary_lit8 = concat
     ['' m\<newline>'',
      [CHR 0xE2, CHR 0x80, CHR 0xA2],
      '' Buildings Close to Transformer: '']\<close>

definition hp_summary_lit9 :: "string" where
  \<open>hp_summary_lit9 = ''/''\<close>

definition hp_summary_lit10 :: "string" where
  \<open>hp_summary_lit10 = concat
     [''\<newline>'',
      ''\<newline>'',
      [CHR 0xE2, CHR 0x9C, CHR 0x85],
      '' IMPLEMENTATION READINESS:\<newline>'',
      [CHR 0xE2, CHR 0x80, CHR 0xA2],
      '' Electrical Capacity: '',
      [CHR 0xE2, CHR 0x9C, CHR 0x85],
      '' Network can support heat pump loads\<newline>'',
      [CHR 0xE2, CHR 0x80, CHR 0xA2],
      '' Infrastructure Proximity: '',
      [CHR 0xE2, CHR 0x9C, CHR 0x85],
      '' Buildings within connection range\<newline>'',
      [CHR 0xE2, CHR 0x80, CHR 0xA2],
      '' Street-Based Routing: '',
      [CHR 0xE2, CHR 0x9C, CHR 0x85],
      '' Construction-ready service connections\<newline>'',
      [CHR 0xE2, CHR 0x80, CHR 0xA2],
      '' Power Quality: '',
      [CHR 0xE2, CHR 0x9C, CHR 0x85],
      '' Voltage levels within acceptable range\<newline>'',
      ''\<newline>'',
      [CHR 0xF0, CHR 0x9F, CHR 0x93, CHR 0x81],
      '' GENERATED FILES:\<newline>'',
      [CHR 0xE2, CHR 0x80, CHR 0xA2],
      '' Interactive Map: '']\<close>

definition hp_summary_lit11 :: "string" where
  \<open>hp_summary_lit11 = concat
     [''\<newline>'',
      [CHR 0xE2, CHR 0x80, CHR 0xA2],
      '' Dashboard: '']\<close>

definition hp_summary_lit12 :: "string" where
  \<open>hp_summary_lit12 = concat
     [''\<newline>'',
      [CHR 0xE2, CHR 0x80, CHR 0xA2],
      '' Proximity Table: '']\<close>

definition hp_summary_lit13 :: "string" where
  \<open>hp_summary_lit13 = concat
     [''/building_proximity_table.csv\<newline>'',
      [CHR 0xE2, CHR 0x80, CHR 0xA2],
      '' Charts: '']\<close>

definition hp_summary_lit14 :: "string" where
  \<open>hp_summary_lit14 = concat
     ['' visualization charts\<newline>'',
      ''\<newline>'',
      [CHR 0xF0, CHR 0x9F, CHR 0x94, CHR 0x97],
      '' DASHBOARD LINK: file://'']\<close>

definition hp_summary_lit15 :: "string" where
  \<open>hp_summary_lit15 = concat
     [''\<newline>'',
      ''\<newline>'',
      [CHR 0xE2, CHR 0x9C, CHR 0x85],
      '' REAL ANALYSIS COMPLETED: This analysis used actual power flow simulation,\<newline>'',
      ''   proximity analysis, and interactive map generation from street_final_copy_3.\<newline>'']\<close>

text \<open>The summary the heat pump analysis returns (source lines 610 to 643).\<close>

definition hp_summary ::
  "hp_stats \<Rightarrow> pyfloat \<Rightarrow> building list \<Rightarrow> string \<Rightarrow> string \<Rightarrow> string \<Rightarrow> string \<Rightarrow> string \<Rightarrow> string list \<Rightarrow> string \<Rightarrow> string" where
  \<open>hp_summary stats avg_dist_sub street_buildings street_name scenario map_path dashboard_path output_dir chart_paths cwd = concat
     [hp_summary_lit0,
      street_name,
      hp_summary_lit1,
      scenario,
      hp_summary_lit2,
      nat_str (length street_buildings),
      hp_summary_lit3,
      fmt_float 2 (MaxTrafoLoading stats),
      hp_summary_lit4,
      fmt_float 3 (MinVoltagePU stats),
      hp_summary_lit5,
      fmt_float 1 (AvgDistLine stats),
      hp_summary_lit6,
      fmt_float 1 avg_dist_sub,
      hp_summary_lit7,
      fmt_float 1 (AvgDistTransformer stats),
      hp_summary_lit8,
      nat_str (length street_buildings),
      hp_summary_lit9,
      nat_str (length street_buildings),
      hp_summary_lit10,
      map_path,
      hp_summary_lit11,
      dashboard_path,
      hp_summary_lit12,
      output_dir,
      hp_summary_lit13,
      nat_str (length chart_paths),
      hp_summary_lit14,
      path_absolute cwd dashboard_path,
      hp_summary_lit15]\<close>

definition dh_dashboard_html_lit0 :: "string" where
  \<open>dh_dashboard_html_lit0 = concat
     [''<!DOCTYPE html>\<newline>'',
      ''<html lang="en">\<newline>'',
      ''<head>\<newline>'',
      ''    <meta charset="UTF-8">\<newline>'',
      ''    <meta name="viewport" content="width=device-width, initial-scale=1.0">\<newline>'',
      ''    <title>District Heating Network Analysis - '']\<close>

definition dh_dashboard_html_lit1 :: "string" where
  \<open>dh_dashboard_html_lit1 = concat
     [''</title>\<newline>'',
      ''    <style>\<newline>'',
      ''        body {\<newline>'',
      ''            font-family: '',
      [CHR 0x27],
      ''Segoe UI'',
      [CHR 0x27],
      '', Tahoma, Geneva, Verdana, sans-serif;\<newline>'',
      ''            margin: 0;\<newline>'',
      ''            padding: 0;\<newline>'',
      ''            background: linear-gradient(135deg, #e17055 0%, #d63031 100%);\<newline>'',
      ''            min-height: 100vh;\<newline>'',
      ''        }\<newline>'',
      ''        .container {\<newline>'',
      ''            max-width: 1400px;\<newline>'',
      ''            margin: 0 auto;\<newline>'',
      ''            padding: 20px;\<newline>'',
      ''        }\<newline>'',
      ''        .header {\<newline>'',
      ''            background: rgba(255, 255, 255, 0.95);\<newline>'',
      ''            padding: 30px;\<newline>'',
      ''            border-radius: 15px;\<newline>'',
      ''            box-shadow: 0 8px 32px rgba(0, 0, 0, 0.1);\<newline>'',
      ''            margin-bottom: 30px;\<newline>'',
      ''            text-align: center;\<newline>'',
      ''        }\<newline>'',
      ''        .header h1 {\<newline>'',
      ''            color: #2c3e50;\<newline>'',
      ''            margin: 0;\<newline>'',
      ''            font-size: 2.5em;\<newline>'',
      ''            font-weight: 300;\<newline>'',
      ''        }\<newline>'',
      ''        .header p {\<newline>'',
      ''            color: #7f8c8d;\<newline>'',
      ''            margin: 10px 0 0 0;\<newline>'',
      ''            font-size: 1.2em;\<newline>'',
      ''        }\<newline>'',
      ''        .dashboard-grid {\<newline>'',
      ''            display: grid;\<newline>'',
      ''            grid-template-columns: 1fr 1fr;\<newline>'',
      ''            gap: 30px;\<newline>'',
      ''            margin-bottom: 30px;\<newline>'',
      ''        }\<newline>'',
      ''        .panel {\<newline>'',
      ''            background: rgba(255, 255, 255, 0.95);\<newline>'',
      ''            padding: 25px;\<newline>'',
      ''            border-radius: 15px;\<newline>'',
      ''            box-shadow: 0 8px 32px rgba(0, 0, 0, 0.1);\<newline>'',
      ''        }\<newline>'',
      ''        .panel h2 {\<newline>'',
      ''            color: #2c3e50;\<newline>'',
      ''            margin: 0 0 20px 0;\<newline>'',
      ''            font-size: 1.5em;\<newline>'',
      ''            border-bottom: 3px solid #e74c3c;\<newline>'',
      ''            padding-bottom: 10px;\<newline>'',
      ''        }\<newline>'',
      ''        .metric-grid {\<newline>'',
      ''            display: grid;\<newline>'',
      ''            grid-template-columns: repeat(auto-fit, minmax(200px, 1fr));\<newline>'',
      ''            gap: 20px;\<newline>'',
      ''        }\<newline>'',
      ''        .metric-card {\<newline>'',
      ''            background: linear-gradient(135deg, #fd79a8 0%, #e84393 100%);\<newline>'',
      ''            color: white;\<newline>'',
      ''            padding: 20px;\<newline>'',
      ''            border-radius: 10px;\<newline>'',
      ''            text-align: center;\<newline>'',
      ''            box-shadow: 0 4px 15px rgba(0, 0, 0, 0.1);\<newline>'',
      ''        }\<newline>'',
      ''        .metric-value {\<newline>'',
      ''            font-size: 2em;\<newline>'',
      ''            font-weight: bold;\<newline>'',
      ''            margin-bottom: 5px;\<newline>'',
      ''        }\<newline>'',
      ''        .metric-label {\<newline>'',
      ''            font-size: 0.9em;\<newline>'',
      ''            opacity: 0.9;\<newline>'',
      ''        }\<newline>'',
      ''        .status-success {\<newline>'',
      ''            background: linear-gradient(135deg, #00b894 0%, #00a085 100%);\<newline>'',
      ''        }\<newline>'',
      ''        .map-container {\<newline>'',
      ''            background: rgba(255, 255, 255, 0.95);\<newline>'',
      ''            padding: 25px;\<newline>'',
      ''            border-radius: 15px;\<newline>'',
      ''            box-shadow: 0 8px 32px rgba(0, 0, 0, 0.1);\<newline>'',
      ''            margin-bottom: 30px;\<newline>'',
      ''        }\<newline>'',
      ''        .map-container h2 {\<newline>'',
      ''            color: #2c3e50;\<newline>'',
      ''            margin: 0 0 20px 0;\<newline>'',
      ''            font-size: 1.5em;\<newline>'',
      ''            border-bottom: 3px solid #e74c3c;\<newline>'',
      ''            padding-bottom: 10px;\<newline>'',
      ''        }\<newline>'',
      ''        .map-container iframe {\<newline>'',
      ''            width: 100%;\<newline>'',
      ''            height: 600px;\<newline>'',
      ''            border: none;\<newline>'',
      ''            border-radius: 10px;\<newline>'',
      ''        }\<newline>'',
      ''        @media (max-width: 768px) {\<newline>'',
      ''            .dashboard-grid {\<newline>'',
      ''                grid-template-columns: 1fr;\<newline>'',
      ''            }\<newline>'',
      ''            .metric-grid {\<newline>'',
      ''                grid-template-columns: 1fr;\<newline>'',
      ''            }\<newline>'',
      ''        }\<newline>'',
      ''    </style>\<newline>'',
      ''</head>\<newline>'',
      ''<body>\<newline>'',
      ''    <div class="container">\<newline>'',
      ''        <div class="header">\<newline>'',
      ''            <h1>'',
      [CHR 0xF0, CHR 0x9F, CHR 0x94, CHR 0xA5],
      '' District Heating Network Analysis</h1>\<newline>'',
      ''            <p>Comprehensive dual-pipe network design and hydraulic simulation for '']\<close>

definition dh_dashboard_html_lit2 :: "string" where
  \<open>dh_dashboard_html_lit2 = concat
     [''</p>\<newline>'',
      ''            <p><strong>Analysis Date:</strong> '']\<close>

definition dh_dashboard_html_lit3 :: "string" where
  \<open>dh_dashboard_html_lit3 = '' | <strong>Buildings Analyzed:</strong> ''\<close>

definition dh_dashboard_html_lit4 :: "string" where
  \<open>dh_dashboard_html_lit4 = concat
     [''</p>\<newline>'',
      ''        </div>\<newline>'',
      ''\<newline>'',
      ''        <div class="dashboard-grid">\<newline>'',
      ''            <div class="panel">\<newline>'',
      ''                <h2>'',
      [CHR 0xF0, CHR 0x9F, CHR 0x93, CHR 0x8A],
      '' Network Infrastructure</h2>\<newline>'',
      ''                <div class="metric-grid">\<newline>'',
      ''                    <div class="metric-card">\<newline>'',
      ''                        <div class="metric-value">'']\<close>

definition dh_dashboard_html_lit5 :: "string" where
  \<open>dh_dashboard_html_lit5 = concat
     ['' km</div>\<newline>'',
      ''                        <div class="metric-label">Supply Pipes</div>\<newline>'',
      ''                    </div>\<newline>'',
      ''                    <div class="metric-card">\<newline>'',
      ''                        <div class="metric-value">'']\<close>

definition dh_dashboard_html_lit6 :: "string" where
  \<open>dh_dashboard_html_lit6 = concat
     ['' km</div>\<newline>'',
      ''                        <div class="metric-label">Return Pipes</div>\<newline>'',
      ''                    </div>\<newline>'',
      ''                    <div class="metric-card">\<newline>'',
      ''                        <div class="metric-value">'']\<close>

definition dh_dashboard_html_lit7 :: "string" where
  \<open>dh_dashboard_html_lit7 = concat
     ['' km</div>\<newline>'',
      ''                        <div class="metric-label">Total Main Pipes</div>\<newline>'',
      ''                    </div>\<newline>'',
      ''                    <div class="metric-card">\<newline>'',
      ''                        <div class="metric-value">'']\<close>

definition dh_dashboard_html_lit8 :: "string" where
  \<open>dh_dashboard_html_lit8 = concat
     ['' m</div>\<newline>'',
      ''                        <div class="metric-label">Service Pipes</div>\<newline>'',
      ''                    </div>\<newline>'',
      ''                </div>\<newline>'',
      ''            </div>\<newline>'',
      ''\<newline>'',
      ''            <div class="panel">\<newline>'',
      ''                <h2>'',
      [CHR 0xF0, CHR 0x9F, CHR 0x8F, CHR 0xA2],
      '' Building Connections</h2>\<newline>'',
      ''                <div class="metric-grid">\<newline>'',
      ''                    <div class="metric-card">\<newline>'',
      ''                        <div class="metric-value">'']\<close>

definition dh_dashboard_html_lit9 :: "string" where
  \<open>dh_dashboard_html_lit9 = concat
     [''</div>\<newline>'',
      ''                        <div class="metric-label">Total Buildings</div>\<newline>'',
      ''                    </div>\<newline>'',
      ''                    <div class="metric-card">\<newline>'',
      ''                        <div class="metric-value">'']\<close>

definition dh_dashboard_html_lit10 :: "string" where
  \<open>dh_dashboard_html_lit10 = concat
     [''</div>\<newline>'',
      ''                        <div class="metric-label">Service Connections</div>\<newline>'',
      ''                    </div>\<newline>'',
      ''                    <div class="metric-card">\<newline>'',
      ''                        <div class="metric-value">'']\<close>

definition dh_dashboard_html_lit11 :: "string" where
  \<open>dh_dashboard_html_lit11 = concat
     [''</div>\<newline>'',
      ''                        <div class="metric-label">Total Heat Demand (MWh/year)</div>\<newline>'',
      ''                    </div>\<newline>'',
      ''                    <div class="metric-card">\<newline>'',
      ''                        <div class="metric-value">'']\<close>

definition dh_dashboard_html_lit12 :: "string" where
  \<open>dh_dashboard_html_lit12 = concat
     [''</div>\<newline>'',
      ''                        <div class="metric-label">Network Density (km/building)</div>\<newline>'',
      ''                    </div>\<newline>'',
      ''                </div>\<newline>'',
      ''            </div>\<newline>'',
      ''        </div>\<newline>'',
      ''\<newline>'',
      ''        <div class="panel">\<newline>'',
      ''            <h2>'',
      [CHR 0xE2, CHR 0x9A, CHR 0xA1],
      '' Hydraulic Simulation Results</h2>\<newline>'',
      ''            <div class="metric-grid">\<newline>'',
      ''                <div class="metric-card status-success">\<newline>'',
      ''                    <div class="metric-value">'']\<close>

definition dh_dashboard_html_lit13 :: "string" where
  \<open>dh_dashboard_html_lit13 = concat
     [''</div>\<newline>'',
      ''                    <div class="metric-label">Pressure Drop (bar)</div>\<newline>'',
      ''                </div>\<newline>'',
      ''                <div class="metric-card">\<newline>'',
      ''                    <div class="metric-value">'']\<close>

definition dh_dashboard_html_lit14 :: "string" where
  \<open>dh_dashboard_html_lit14 = concat
     [''</div>\<newline>'',
      ''                    <div class="metric-label">Total Flow (kg/s)</div>\<newline>'',
      ''                </div>\<newline>'',
      ''                <div class="metric-card">\<newline>'',
      ''                    <div class="metric-value">'']\<close>

definition dh_dashboard_html_lit15 :: "string" where
  \<open>dh_dashboard_html_lit15 = concat
     ['' '',
      [CHR 0xC2, CHR 0xB0],
      ''C</div>\<newline>'',
      ''                    <div class="metric-label">Temperature Drop</div>\<newline>'',
      ''                </div>\<newline>'',
      ''                <div class="metric-card status-success">\<newline>'',
      ''                    <div class="metric-value">'']\<close>

definition dh_dashboard_html_lit16 :: "string" where
  \<open>dh_dashboard_html_lit16 = concat
     [''</div>\<newline>'',
      ''                    <div class="metric-label">Hydraulic Success</div>\<newline>'',
      ''                </div>\<newline>'',
      ''            </div>\<newline>'',
      ''        </div>\<newline>'',
      ''\<newline>'',
      ''        <div class="map-container">\<newline>'',
      ''            <h2>'',
      [CHR 0xF0, CHR 0x9F, CHR 0x97, CHR 0xBA, CHR 0xEF, CHR 0xB8, CHR 0x8F],
      '' Interactive Network Map</h2>\<newline>'',
      ''            <iframe src="'']\<close>

definition dh_dashboard_html_lit17 :: "string" where
  \<open>dh_dashboard_html_lit17 = concat
     [''"></iframe>\<newline>'',
      ''        </div>\<newline>'',
      ''\<newline>'',
      ''        <div class="panel">\<newline>'',
      ''            <h2>'',
      [CHR 0xE2, CHR 0x9C, CHR 0x85],
      '' Implementation Recommendations</h2>\<newline>'',
      ''            <div style="background: #f8f9fa; padding: 20px; border-radius: 10px; border-left: 5px solid #00b894;">\<newline>'',
      ''                <h4 style="margin: 0 0 10px 0; color: #2c3e50;">'',
      [CHR 0xF0, CHR 0x9F, CHR 0x94, CHR 0xA5],
      '' Complete Dual-Pipe System</h4>\<newline>'',
      ''                <p style="margin: 0; color: #7f8c8d;">'',
      [CHR 0xE2, CHR 0x9C, CHR 0x85],
      '' Supply and return networks designed - '']\<close>

definition dh_dashboard_html_lit18 :: "string" where
  \<open>dh_dashboard_html_lit18 = concat
     ['' km total main pipes</p>\<newline>'',
      ''            </div>\<newline>'',
      ''            <div style="background: #f8f9fa; padding: 20px; border-radius: 10px; border-left: 5px solid #00b894; margin-top: 15px;">\<newline>'',
      ''                <h4 style="margin: 0 0 10px 0; color: #2c3e50;">'',
      [CHR 0xE2, CHR 0x9A, CHR 0xA1],
      '' Pandapipes Simulation</h4>\<newline>'',
      ''                <p style="margin: 0; color: #7f8c8d;">'',
      [CHR 0xE2, CHR 0x9C, CHR 0x85],
      '' Hydraulic analysis completed successfully - Pressure drop within limits</p>\<newline>'',
      ''            </div>\<newline>'',
      ''            <div style="background: #f8f9fa; padding: 20px; border-radius: 10px; border-left: 5px solid #00b894; margin-top: 15px;">\<newline>'',
      ''                <h4 style="margin: 0 0 10px 0; color: #2c3e50;">'',
      [CHR 0xF0, CHR 0x9F, CHR 0x8F, CHR 0x97, CHR 0xEF, CHR 0xB8, CHR 0x8F],
      '' Engineering Compliance</h4>\<newline>'',
      ''                <p style="margin: 0; color: #7f8c8d;">'',
      [CHR 0xE2, CHR 0x9C, CHR 0x85],
      '' Industry standards met - Temperature drop of '']\<close>

definition dh_dashboard_html_lit19 :: "string" where
  \<open>dh_dashboard_html_lit19 = concat
     [[CHR 0xC2, CHR 0xB0],
      ''C achieved</p>\<newline>'',
      ''            </div>\<newline>'',
      ''            <div style="background: #f8f9fa; padding: 20px; border-radius: 10px; border-left: 5px solid #00b894; margin-top: 15px;">\<newline>'',
      ''                <h4 style="margin: 0 0 10px 0; color: #2c3e50;">'',
      [CHR 0xF0, CHR 0x9F, CHR 0x9B, CHR 0xA3, CHR 0xEF, CHR 0xB8, CHR 0x8F],
      '' Street-Based Routing</h4>\<newline>'',
      ''                <p style="margin: 0; color: #7f8c8d;">'',
      [CHR 0xE2, CHR 0x9C, CHR 0x85],
      '' ALL connections follow existing street network for construction feasibility</p>\<newline>'',
      ''            </div>\<newline>'',
      ''        </div>\<newline>'',
      ''    </div>\<newline>'',
      ''</body>\<newline>'',
      ''</html>'']\<close>

text \<open>The dashboard of the district heating analysis (source lines 759 to 973). It is reached with at least one building, so the built-in density \<open>1.84 / len(street_buildings)\<close> divides by a positive number.\<close>

definition dh_dashboard_html ::
  "network_stats \<Rightarrow> simulation_results \<Rightarrow> building list \<Rightarrow> string \<Rightarrow> string option \<Rightarrow> datetime \<Rightarrow> string" where
  \<open>dh_dashboard_html network_stats simulation_results street_buildings street_name map_path now = concat
     [dh_dashboard_html_lit0,
      street_name,
      dh_dashboard_html_lit1,
      street_name,
      dh_dashboard_html_lit2,
      strftime_B_d_Y now,
      dh_dashboard_html_lit3,
      int_str (get_default (num_buildings network_stats) (int (length street_buildings))),
      dh_dashboard_html_lit4,
      fmt_fixed 2 (get_default (total_supply_length_km network_stats) 0.92),
      dh_dashboard_html_lit5,
      fmt_fixed 2 (get_default (total_return_length_km network_stats) 0.92),
      dh_dashboard_html_lit6,
      fmt_fixed 2 (get_default (total_main_length_km network_stats) 1.84),
      dh_dashboard_html_lit7,
      fmt_fixed 0 (get_default (total_service_length_m network_stats) (real (length street_buildings) * 50)),
      dh_dashboard_html_lit8,
      int_str (get_default (num_buildings network_stats) (int (length street_buildings))),
      dh_dashboard_html_lit9,
      int_str (get_default (service_connections network_stats) (int (length street_buildings) * 2)),
      dh_dashboard_html_lit10,
      fmt_fixed 1 (get_default (total_heat_demand_mwh network_stats) (real (length street_buildings) * 10)),
      dh_dashboard_html_lit11,
      fmt_fixed 3 (get_default (network_density_km_per_building network_stats) (1.84 / real (length street_buildings))),
      dh_dashboard_html_lit12,
      fmt_fixed 6 (get_default (pressure_drop_bar simulation_results) 0.000025),
      dh_dashboard_html_lit13,
      fmt_fixed 1 (get_default (total_flow_kg_per_s simulation_results) (real (length street_buildings) * 0.1)),
      dh_dashboard_html_lit14,
      fmt_fixed 1 (get_default (temperature_drop_c simulation_results) 30.0),
      dh_dashboard_html_lit15,
      (if get_default (hydraulic_success simulation_results) True then [CHR 0xE2, CHR 0x9C, CHR 0x85] @ '' Yes'' else [CHR 0xE2, CHR 0x9D, CHR 0x8C] @ '' No''),
      dh_dashboard_html_lit16,
      (case map_path of Some p \<Rightarrow> os_path_basename p | None \<Rightarrow> ''dh_network_map.html''),
      dh_dashboard_html_lit17,
      fmt_fixed 2 (get_default (total_main_length_km network_stats) 1.84),
      dh_dashboard_html_lit18,
      fmt_fixed 1 (get_default (temperature_drop_c simulation_results) 30.0),
      dh_dashboard_html_lit19]\<close>

definition dh_summary_lit0 :: "string" where
  \<open>dh_summary_lit0 = concat
     [''\<newline>'',
      ''=== COMPREHENSIVE DISTRICT HEATING NETWORK ANALYSIS ===\<newline>'',
      ''Street: '']\<close>

definition dh_summary_lit1 :: "string" where
  \<open>dh_summary_lit1 = concat
     [''\<newline>'',
      ''Buildings Analyzed: '']\<close>

definition dh_summary_lit2 :: "string" where
  \<open>dh_summary_lit2 = concat
     [''\<newline>'',
      ''\<newline>'',
      [CHR 0xF0, CHR 0x9F, CHR 0x93, CHR 0x8A],
      '' NETWORK INFRASTRUCTURE:\<newline>'',
      [CHR 0xE2, CHR 0x80, CHR 0xA2],
      '' Supply Pipes: '']\<close>

definition dh_summary_lit3 :: "string" where
  \<open>dh_summary_lit3 = concat
     ['' km\<newline>'',
      [CHR 0xE2, CHR 0x80, CHR 0xA2],
      '' Return Pipes: '']\<close>

definition dh_summary_lit4 :: "string" where
  \<open>dh_summary_lit4 = concat
     ['' km\<newline>'',
      [CHR 0xE2, CHR 0x80, CHR 0xA2],
      '' Total Main Pipes: '']\<close>

definition dh_summary_lit5 :: "string" where
  \<open>dh_summary_lit5 = concat
     ['' km\<newline>'',
      [CHR 0xE2, CHR 0x80, CHR 0xA2],
      '' Service Pipes: '']\<close>

definition dh_summary_lit6 :: "string" where
  \<open>dh_summary_lit6 = concat
     ['' m\<newline>'',
      ''\<newline>'',
      [CHR 0xF0, CHR 0x9F, CHR 0x8F, CHR 0xA2],
      '' BUILDING CONNECTIONS:\<newline>'',
      [CHR 0xE2, CHR 0x80, CHR 0xA2],
      '' Total Buildings: '']\<close>

definition dh_summary_lit7 :: "string" where
  \<open>dh_summary_lit7 = concat
     [''\<newline>'',
      [CHR 0xE2, CHR 0x80, CHR 0xA2],
      '' Service Connections: '']\<close>

definition dh_summary_lit8 :: "string" where
  \<open>dh_summary_lit8 = concat
     ['' (supply + return)\<newline>'',
      [CHR 0xE2, CHR 0x80, CHR 0xA2],
      '' Total Heat Demand: '']\<close>

definition dh_summary_lit9 :: "string" where
  \<open>dh_summary_lit9 = concat
     ['' MWh/year\<newline>'',
      [CHR 0xE2, CHR 0x80, CHR 0xA2],
      '' Network Density: '']\<close>

definition dh_summary_lit10 :: "string" where
  \<open>dh_summary_lit10 = concat
     ['' km per building\<newline>'',
      ''\<newline>'',
      [CHR 0xE2, CHR 0x9A, CHR 0xA1],
      '' HYDRAULIC SIMULATION:\<newline>'',
      [CHR 0xE2, CHR 0x80, CHR 0xA2],
      '' Pressure Drop: '']\<close>

definition dh_summary_lit11 :: "string" where
  \<open>dh_summary_lit11 = concat
     ['' bar\<newline>'',
      [CHR 0xE2, CHR 0x80, CHR 0xA2],
      '' Total Flow: '']\<close>

definition dh_summary_lit12 :: "string" where
  \<open>dh_summary_lit12 = concat
     ['' kg/s\<newline>'',
      [CHR 0xE2, CHR 0x80, CHR 0xA2],
      '' Temperature Drop: '']\<close>

definition dh_summary_lit13 :: "string" where
  \<open>dh_summary_lit13 = concat
     ['' '',
      [CHR 0xC2, CHR 0xB0],
      ''C\<newline>'',
      [CHR 0xE2, CHR 0x80, CHR 0xA2],
      '' Hydraulic Success: '']\<close>

definition dh_summary_lit14 :: "string" where
  \<open>dh_summary_lit14 = concat
     [''\<newline>'',
      ''\<newline>'',
      [CHR 0xE2, CHR 0x9C, CHR 0x85],
      '' IMPLEMENTATION READINESS:\<newline>'',
      [CHR 0xE2, CHR 0x80, CHR 0xA2],
      '' Complete Dual-Pipe System: '',
      [CHR 0xE2, CHR 0x9C, CHR 0x85],
      '' Supply and return networks\<newline>'',
      [CHR 0xE2, CHR 0x80, CHR 0xA2],
      '' Pandapipes Simulation: '',
      [CHR 0xE2, CHR 0x9C, CHR 0x85],
      '' Hydraulic analysis completed\<newline>'',
      [CHR 0xE2, CHR 0x80, CHR 0xA2],
      '' Engineering Compliance: '',
      [CHR 0xE2, CHR 0x9C, CHR 0x85],
      '' Industry standards met\<newline>'',
      [CHR 0xE2, CHR 0x80, CHR 0xA2],
      '' Street-Based Routing: '',
      [CHR 0xE2, CHR 0x9C, CHR 0x85],
      '' ALL connections follow streets\<newline>'',
      ''\<newline>'',
      [CHR 0xF0, CHR 0x9F, CHR 0x93, CHR 0x81],
      '' GENERATED FILES:\<newline>'',
      [CHR 0xE2, CHR 0x80, CHR 0xA2],
      '' Dashboard: '']\<close>

definition dh_summary_lit15 :: "string" where
  \<open>dh_summary_lit15 = concat
     [''\<newline>'',
      [CHR 0xE2, CHR 0x80, CHR 0xA2],
      '' Network Data: '']\<close>

definition dh_summary_lit16 :: "string" where
  \<open>dh_summary_lit16 = concat
     [''/dual_supply_pipes_*.csv\<newline>'',
      [CHR 0xE2, CHR 0x80, CHR 0xA2],
      '' Service Connections: '']\<close>

definition dh_summary_lit17 :: "string" where
  \<open>dh_summary_lit17 = concat
     [''/dual_service_connections_*.csv\<newline>'',
      [CHR 0xE2, CHR 0x80, CHR 0xA2],
      '' Simulation Results: '']\<close>

definition dh_summary_lit18 :: "string" where
  \<open>dh_summary_lit18 = concat
     [''/pandapipes_simulation_*.json\<newline>'',
      ''\<newline>'',
      [CHR 0xF0, CHR 0x9F, CHR 0x94, CHR 0x97],
      '' DASHBOARD LINK: file://'']\<close>

definition dh_summary_lit19 :: "string" where
  \<open>dh_summary_lit19 = concat
     [''\<newline>'',
      ''\<newline>'',
      [CHR 0xE2, CHR 0x9C, CHR 0x85],
      '' REAL ANALYSIS COMPLETED: This analysis used actual dual-pipe network design,\<newline>'',
      ''   pandapipes hydraulic simulation, and interactive map generation from street_final_copy_3.\<newline>'']\<close>

text \<open>The summary the district heating analysis returns (source lines 979 to 1017).\<close>

definition dh_summary ::
  "network_stats \<Rightarrow> simulation_results \<Rightarrow> building list \<Rightarrow> string \<Rightarrow> string \<Rightarrow> string \<Rightarrow> string \<Rightarrow> string" where
  \<open>dh_summary network_stats simulation_results street_buildings street_name dashboard_path output_dir cwd = concat
     [dh_summary_lit0,
      street_name,
      dh_summary_lit1,
      int_str (get_default (num_buildings network_stats) (int (length street_buildings))),
      dh_summary_lit2,
      fmt_fixed 2 (get_default (total_supply_length_km network_stats) 0.92),
      dh_summary_lit3,
      fmt_fixed 2 (get_default (total_return_length_km network_stats) 0.92),
      dh_summary_lit4,
      fmt_fixed 2 (get_default (total_main_length_km network_stats) 1.84),
      dh_summary_lit5,
      fmt_fixed 0 (get_default (total_service_length_m network_stats) (real (length street_buildings) * 50)),
      dh_summary_lit6,
      int_str (get_default (num_buildings network_stats) (int (length street_buildings))),
      dh_summary_lit7,
      int_str (get_default (service_connections network_stats) (int (length street_buildings) * 2)),
      dh_summary_lit8,
      fmt_fixed 1 (get_default (total_heat_demand_mwh network_stats) (real (length street_buildings) * 10)),
      dh_summary_lit9,
      fmt_fixed 3 (get_default (network_density_km_per_building network_stats) (1.84 / real (length street_buildings))),
      dh_summary_lit10,
      fmt_fixed 6 (get_default (pressure_drop_bar simulation_results) 0.000025),
      dh_summary_lit11,
      fmt_fixed 1 (get_default (total_flow_kg_per_s simulation_results) (real (length street_buildings) * 0.1)),
      dh_summary_lit12,
      fmt_fixed 1 (get_default (temperature_drop_c simulation_results) 30.0),
      dh_summary_lit13,
      (if get_default (hydraulic_success simulation_results) True then [CHR 0xE2, CHR 0x9C, CHR 0x85] @ '' Yes'' else [CHR 0xE2, CHR 0x9D, CHR 0x8C] @ '' No''),
      dh_summary_lit14,
      dashboard_path,
      dh_summary_lit15,
      output_dir,
      dh_summary_lit16,
      output_dir,
      dh_summary_lit17,
      output_dir,
      dh_summary_lit18,
      path_absolute cwd dashboard_path,
      dh_summary_lit19]\<close>

definition comparison_summary_lit0 :: "string" where
  \<open>comparison_summary_lit0 = concat
     [''\<newline>'',
      ''=== COMPREHENSIVE SCENARIO COMPARISON ===\<newline>'',
      ''Street: '']\<close>

definition comparison_summary_lit1 :: "string" where
  \<open>comparison_summary_lit1 = concat
     [''\<newline>'',
      ''HP Scenario: '']\<close>

definition comparison_summary_lit2 :: "string" where
  \<open>comparison_summary_lit2 = concat
     [''\<newline>'',
      ''\<newline>'',
      [CHR 0xF0, CHR 0x9F, CHR 0x94, CHR 0x8C],
      '' HEAT PUMP (DECENTRALIZED) ANALYSIS:\<newline>'']\<close>

definition comparison_summary_lit3 :: "string" where
  \<open>comparison_summary_lit3 = concat
     [''\<newline>'',
      ''\<newline>'',
      [CHR 0xF0, CHR 0x9F, CHR 0x94, CHR 0xA5],
      '' DISTRICT HEATING (CENTRALIZED) ANALYSIS:\<newline>'']\<close>

definition comparison_summary_lit4 :: "string" where
  \<open>comparison_summary_lit4 = concat
     [''\<newline>'',
      ''\<newline>'',
      [CHR 0xE2, CHR 0x9A, CHR 0x96, CHR 0xEF, CHR 0xB8, CHR 0x8F],
      '' COMPARISON SUMMARY:\<newline>'',
      [CHR 0xE2, CHR 0x80, CHR 0xA2],
      '' Heat Pumps: Individual building solutions with electrical infrastructure requirements\<newline>'',
      [CHR 0xE2, CHR 0x80, CHR 0xA2],
      '' District Heating: Centralized network solution with thermal infrastructure\<newline>'',
      [CHR 0xE2, CHR 0x80, CHR 0xA2],
      '' Both: Street-following routing for construction feasibility\<newline>'',
      [CHR 0xE2, CHR 0x80, CHR 0xA2],
      '' Both: Comprehensive simulation and analysis completed\<newline>'',
      ''\<newline>'',
      [CHR 0xF0, CHR 0x9F, CHR 0x93, CHR 0x8A],
      '' RECOMMENDATION:\<newline>'',
      ''The choice between HP and DH depends on:\<newline>'',
      ''1. Electrical infrastructure capacity (HP requirement)\<newline>'',
      ''2. Thermal infrastructure investment (DH requirement)\<newline>'',
      ''3. Building density and heat demand patterns\<newline>'',
      ''4. Local energy prices and policy preferences\<newline>'',
      ''\<newline>'',
      ''Both solutions are technically feasible for '']\<close>

definition comparison_summary_lit5 :: "string" where
  \<open>comparison_summary_lit5 = concat
     ['' with proper infrastructure planning.\<newline>'',
      ''\<newline>'',
      [CHR 0xF0, CHR 0x9F, CHR 0x92, CHR 0xA1],
      '' NOTE: This is a demonstration of the enhanced agent system integration.\<newline>'',
      ''   The full implementation would include actual comprehensive analysis\<newline>'',
      ''   with real power flow and hydraulic simulations.\<newline>'']\<close>

text \<open>The summary the comparison returns (source lines 1047 to 1076).\<close>

definition comparison_summary ::
  "string \<Rightarrow> string \<Rightarrow> string \<Rightarrow> string \<Rightarrow> string" where
  \<open>comparison_summary street_name hp_scenario hp_result dh_result = concat
     [comparison_summary_lit0,
      street_name,
      comparison_summary_lit1,
      hp_scenario,
      comparison_summary_lit2,
      hp_result,
      comparison_summary_lit3,
      dh_result,
      comparison_summary_lit4,
      street_name,
      comparison_summary_lit5]\<close>

section \<open>The analyses\<close>

text \<open>
  What an analysis meets outside its own code: the import of the external package, the
  file system, the functions of the package, the clock. Each field gives the outcome of
  one call: the exception it raises, or its result. A call whose result the analysis
  does not use gives \<open>None\<close> when it returns.
\<close>

record world =
  import_modules :: "exn + bool"
  mkdir :: "string \<Rightarrow> exn option"
  load_buildings :: "exn + building list"
  read_buildings :: "exn + building list"
  load_power_infrastructure :: "exn option"
  read_streets :: "exn option"
  compute_proximity :: "building list \<Rightarrow> exn + building list"
  compute_service_lines_street_following :: "building list \<Rightarrow> exn + building list"
  compute_power_feasibility :: "building list \<Rightarrow> string \<Rightarrow> exn + power_metrics"
  visualize :: "building list \<Rightarrow> exn option"
  output_results_table :: "building list \<Rightarrow> exn option"
  plot_histograms :: "building list \<Rightarrow> exn option"
  write_text :: "string \<Rightarrow> string \<Rightarrow> exn option"
  to_file :: "string \<Rightarrow> building list \<Rightarrow> exn option"
  build_network :: "string \<Rightarrow> string \<Rightarrow> exn option"
  load_network_stats :: "string \<Rightarrow> (exn + network_stats) option"
  load_simulation_results :: "string \<Rightarrow> (exn + simulation_results) option"
  now :: datetime
  cwd :: string

text \<open>
  \<open>import_modules\<close>: \<open>import_street_final_modules()\<close> returns the modules (\<open>True\<close>) or
  \<open>None\<close> (\<open>False\<close>, after an \<open>ImportError\<close>), or raises what \<open>os.makedirs\<close> raises.
  \<open>load_network_stats file\<close> and \<open>load_simulation_results file\<close> are \<open>None\<close> when
  \<open>os.path.exists(file)\<close> is false, and else what \<open>json.load\<close> gives. \<open>build_network\<close> is
  the body of the inner \<open>try\<close> of the district heating analysis.
\<close>

definition modules_missing_msg :: "string" where
  "modules_missing_msg = ''Error: Required modules from street_final_copy_3 are not available.''"

definition no_buildings_msg :: "string \<Rightarrow> string" where
  "no_buildings_msg street_name = ''No buildings found for street: '' @ street_name"

subsection \<open>\<open>run_comprehensive_hp_analysis\<close>\<close>

definition hp_output_dir :: "string" where
  "hp_output_dir = ''results_test/hp_analysis''"

definition hp_map_path :: "string" where
  "hp_map_path = os_path_join hp_output_dir ''hp_feasibility_map.html''"

definition hp_dashboard_path :: "string" where
  "hp_dashboard_path = path_div hp_output_dir ''hp_feasibility_dashboard.html''"

definition hp_chart_paths :: "string list" where
  "hp_chart_paths =
     [path_div hp_output_dir ''dist_to_transformer_hist.png'',
      path_div hp_output_dir ''dist_to_line_hist.png'']"

text \<open>The body of the \<open>try\<close>: \<open>Inl\<close> is an exception that reaches the \<open>except\<close>.\<close>

definition hp_body :: "world \<Rightarrow> string \<Rightarrow> string \<Rightarrow> exn + string" where
  "hp_body w street_name scenario =
     (case import_modules w of
        Inl e \<Rightarrow> Inl e
      | Inr False \<Rightarrow> Inr modules_missing_msg
      | Inr True \<Rightarrow>
     (case mkdir w hp_output_dir of
        Some e \<Rightarrow> Inl e
      | None \<Rightarrow>
     (case load_buildings w of
        Inl e \<Rightarrow> Inl e
      | Inr buildings \<Rightarrow>
     (case filter_street street_name buildings [] of
        Inl e \<Rightarrow> Inl e
      | Inr street_buildings \<Rightarrow>
     if length street_buildings = 0 then Inr (no_buildings_msg street_name)
     else
     (case load_power_infrastructure w of
        Some e \<Rightarrow> Inl e
      | None \<Rightarrow>
     (case read_streets w of
        Some e \<Rightarrow> Inl e
      | None \<Rightarrow>
     (case compute_proximity w street_buildings of
        Inl e \<Rightarrow> Inl e
      | Inr near \<Rightarrow>
     (case compute_service_lines_street_following w near of
        Inl e \<Rightarrow> Inl e
      | Inr served \<Rightarrow>
     (case compute_power_feasibility w served scenario of
        Inl e \<Rightarrow> Inl e
      | Inr power_metrics \<Rightarrow>
     (let merged = merge_power_metrics power_metrics served in
     (case visualize w merged of
        Some e \<Rightarrow> Inl e
      | None \<Rightarrow>
     (case output_results_table w merged of
        Some e \<Rightarrow> Inl e
      | None \<Rightarrow>
     (let stats = compute_stats merged in
     (case plot_histograms w merged of
        Some e \<Rightarrow> Inl e
      | None \<Rightarrow>
     (case write_text w hp_dashboard_path
             (hp_dashboard_html stats street_name scenario hp_map_path (now w)) of
        Some e \<Rightarrow> Inl e
      | None \<Rightarrow>
          Inr (hp_summary stats (avg_dist_to_substation merged) merged street_name scenario
                 hp_map_path hp_dashboard_path hp_output_dir hp_chart_paths (cwd w))
     )))))))))))))))"

definition run_comprehensive_hp_analysis :: "world \<Rightarrow> string \<Rightarrow> string \<Rightarrow> string" where
  "run_comprehensive_hp_analysis w street_name scenario =
     (case hp_body w street_name scenario of
        Inl e \<Rightarrow> ''Error in comprehensive HP analysis: '' @ str_exn e
      | Inr report \<Rightarrow> report)"

subsection \<open>\<open>run_comprehensive_dh_analysis\<close>\<close>

definition dh_output_dir :: "string" where
  "dh_output_dir = ''results_test/dh_analysis''"

definition dh_buildings_file :: "string \<Rightarrow> string" where
  "dh_buildings_file street_name =
     dh_output_dir @ ''/buildings_'' @ replace_blank street_name @ ''.geojson''"

definition dh_stats_file :: "string \<Rightarrow> string" where
  "dh_stats_file street_name =
     dh_output_dir @ ''/dual_network_stats_dh_analysis_'' @ replace_blank street_name @ ''.json''"

definition dh_sim_file :: "string \<Rightarrow> string" where
  "dh_sim_file street_name =
     dh_output_dir @ ''/pandapipes_simulation_results_dh_analysis_'' @
     replace_blank street_name @ ''.json''"

definition dh_dashboard_path :: "string \<Rightarrow> string" where
  "dh_dashboard_path street_name =
     path_div dh_output_dir (''dh_dashboard_'' @ replace_blank street_name @ ''.html'')"

text \<open>The inner \<open>try\<close>: an exception in it is printed and leaves \<open>map_path = None\<close>.\<close>

definition dh_map_path :: "world \<Rightarrow> string \<Rightarrow> string option" where
  "dh_map_path w street_name =
     (case build_network w (dh_buildings_file street_name) street_name of
        Some e \<Rightarrow> None
      | None \<Rightarrow> Some (os_path_join dh_output_dir (''dh_network_map_'' @ street_name @ ''.html'')))"

text \<open>The statistics used when a statistics file does not exist.\<close>

definition default_network_stats :: "building list \<Rightarrow> network_stats" where
  "default_network_stats street_buildings =
     \<lparr>total_supply_length_km = Some 0.92,
      total_return_length_km = Some 0.92,
      total_main_length_km = Some 1.84,
      total_service_length_m = Some (real (length street_buildings) * 50),
      num_buildings = Some (int (length street_buildings)),
      service_connections = Some (int (length street_buildings) * 2),
      total_heat_demand_mwh = Some (real (length street_buildings) * 10),
      network_density_km_per_building = Some (1.84 / real (length street_buildings))\<rparr>"

definition default_simulation_results :: "building list \<Rightarrow> simulation_results" where
  "default_simulation_results street_buildings =
     \<lparr>pressure_drop_bar = Some 0.000025,
      total_flow_kg_per_s = Some (real (length street_buildings) * 0.1),
      temperature_drop_c = Some 30.0,
      hydraulic_success = Some True\<rparr>"

definition dh_body :: "world \<Rightarrow> string \<Rightarrow> exn + string" where
  "dh_body w street_name =
     (case import_modules w of
        Inl e \<Rightarrow> Inl e
      | Inr False \<Rightarrow> Inr modules_missing_msg
      | Inr True \<Rightarrow>
     (case mkdir w dh_output_dir of
        Some e \<Rightarrow> Inl e
      | None \<Rightarrow>
     (case read_buildings w of
        Inl e \<Rightarrow> Inl e
      | Inr buildings \<Rightarrow>
     (case filter_street street_name buildings [] of
        Inl e \<Rightarrow> Inl e
      | Inr street_buildings \<Rightarrow>
     if length street_buildings = 0 then Inr (no_buildings_msg street_name)
     else
     (case to_file w (dh_buildings_file street_name) street_buildings of
        Some e \<Rightarrow> Inl e
      | None \<Rightarrow>
     (let map_path = dh_map_path w street_name in
     (case (case load_network_stats w (dh_stats_file street_name) of
              None \<Rightarrow> Inr (default_network_stats street_buildings)
            | Some loaded \<Rightarrow> loaded) of
        Inl e \<Rightarrow> Inl e
      | Inr network_stats \<Rightarrow>
     (case (case load_simulation_results w (dh_sim_file street_name) of
              None \<Rightarrow> Inr (default_simulation_results street_buildings)
            | Some loaded \<Rightarrow> loaded) of
        Inl e \<Rightarrow> Inl e
      | Inr simulation_results \<Rightarrow>
     (case write_text w (dh_dashboard_path street_name)
             (dh_dashboard_html network_stats simulation_results street_buildings street_name
                map_path (now w)) of
        Some e \<Rightarrow> Inl e
      | None \<Rightarrow>
          Inr (dh_summary network_stats simulation_results street_buildings street_name
                 (dh_dashboard_path street_name) dh_output_dir (cwd w))
     )))))))))"

definition run_comprehensive_dh_analysis :: "world \<Rightarrow> string \<Rightarrow> string" where
  "run_comprehensive_dh_analysis w street_name =
     (case dh_body w street_name of
        Inl e \<Rightarrow> ''Error in comprehensive DH analysis: '' @ str_exn e
      | Inr report \<Rightarrow> report)"

subsection \<open>\<open>compare_comprehensive_scenarios\<close>\<close>

text \<open>
  The comparison runs the two analyses one after the other: \<open>w_hp\<close> is the world the
  first meets and \<open>w_dh\<close> the world the second meets. Neither raises, and the f-string
  cannot, so the \<open>except\<close> of the comparison is never entered.
\<close>

definition compare_comprehensive_scenarios ::
  "world \<Rightarrow> world \<Rightarrow> string \<Rightarrow> string \<Rightarrow> string" where
  "compare_comprehensive_scenarios w_hp w_dh street_name hp_scenario =
     (let hp_result = run_comprehensive_hp_analysis w_hp street_name hp_scenario;
          dh_result = run_comprehensive_dh_analysis w_dh street_name
      in comparison_summary street_name hp_scenario hp_result dh_result)"

section \<open>Sample address files\<close>


text \<open>One building with three equal address entries.\<close>

definition duplicate_entries_feature :: "json" where
  "duplicate_entries_feature =
     JObj [(''adressen'', JArr [JObj [(''str'', JStr ''Parkweg'')],
                                JObj [(''str'', JStr ''Parkweg'')],
                                JObj [(''str'', JStr ''Parkweg'')]]),
           (''gebaeude'', JObj [(''oi'', JStr ''DEBB001'')])]"

definition duplicate_entries_collection :: "json" where
  "duplicate_entries_collection = JObj [(''features'', JArr [duplicate_entries_feature])]"


text \<open>Rows of the building table: the street is stored plainly, and with a trailing blank.\<close>

definition parkweg_building :: "building" where
  "parkweg_building =
     \<lparr>idx = 0, adressen = Parsed (JArr [JObj [(''str'', JStr ''Parkweg'')]]),
      gebaeude = Some ''DEBB001'', id_col = None,
      max_trafo_loading = NaN, min_voltage_pu = NaN,
      dist_to_line = NaN, dist_to_substation = NaN, dist_to_transformer = NaN\<rparr>"

definition padded_building :: "building" where
  "padded_building =
     \<lparr>idx = 1, adressen = Parsed (JArr [JObj [(''str'', JStr ''Parkweg '')]]),
      gebaeude = Some ''DEBB002'', id_col = None,
      max_trafo_loading = NaN, min_voltage_pu = NaN,
      dist_to_line = NaN, dist_to_substation = NaN, dist_to_transformer = NaN\<rparr>"



text \<open>Three instants: two on the same day and one on the next.\<close>

definition morning :: "datetime" where
  "morning = \<lparr>year = 2024, month = March, day = 5, hour = 9, minute = 30, second = 0,
              microsecond = 0\<rparr>"




text \<open>
  A world in which every call returns: the table holds the two sample rows, no
  statistics file exists.
\<close>

definition quiet_world :: "world" where
  "quiet_world =
     \<lparr>import_modules = Inr True,
      mkdir = (\<lambda>d. None),
      load_buildings = Inr [parkweg_building, padded_building],
      read_buildings = Inr [parkweg_building, padded_building],
      load_power_infrastructure = None,
      read_streets = None,
      compute_proximity = (\<lambda>bs. Inr bs),
      compute_service_lines_street_following = (\<lambda>bs. Inr bs),
      compute_power_feasibility = (\<lambda>bs scenario. Inr Map.empty),
      visualize = (\<lambda>bs. None),
      output_results_table = (\<lambda>bs. None),
      plot_histograms = (\<lambda>bs. None),
      write_text = (\<lambda>path content. None),
      to_file = (\<lambda>path bs. None),
      build_network = (\<lambda>buildings_file street_name. None),
      load_network_stats = (\<lambda>path. None),
      load_simulation_results = (\<lambda>path. None),
      now = morning,
      cwd = ''/home/user/branitz''\<rparr>"


text \<open>The same world, but the building table cannot be loaded.\<close>

definition broken_table_world :: "world" where
  "broken_table_world =
     quiet_world\<lparr>load_buildings := Inl (Exn OtherError ''buildings file is damaged''),
                   read_buildings := Inl (Exn OtherError ''buildings file is damaged'')\<rparr>"


text \<open>The same world, but the table holds the first sample row only.\<close>

definition single_building_world :: "world" where
  "single_building_world =
     quiet_world\<lparr>load_buildings := Inr [parkweg_building],
                   read_buildings := Inr [parkweg_building]\<rparr>"

text \<open>An output directory \<open>results\<close> with two files; the other directories do not exist.\<close>

definition sample_walk :: "string \<Rightarrow> file_entry list option" where
  "sample_walk dir =
     (if dir = ''results'' then
        Some [\<lparr>file_name = ''streets.geojson'', relative_path = ''maps/streets.geojson'',
               file_size = Inr 20480\<rparr>,
              \<lparr>file_name = ''kpi.json'', relative_path = ''kpi.json'', file_size = Inr 312\<rparr>]
      else None)"

section \<open>Evaluating the number formats\<close>

text \<open>The digits of a numeral, by rewriting.\<close>

lemma nat_str_numeral:
  "nat_str (numeral k) =
     (if (numeral k :: nat) < 10 then [digit_char (numeral k)]
      else nat_str (numeral k div 10) @ [digit_char (numeral k mod 10)])"
  by (rule nat_str.simps)

lemma nat_str_0: "nat_str 0 = ''0''"
  by (simp add: nat_str.simps [of 0] digit_char_def)

lemma nat_str_1: "nat_str 1 = ''1''" "nat_str (Suc 0) = ''1''"
  by (simp_all add: nat_str.simps [of 1] nat_str.simps [of "Suc 0"] digit_char_def)


lemma replicate_numeral_eval:
  "replicate (numeral k) x = x # replicate (pred_numeral k) x"
  by (simp add: numeral_eq_Suc)

lemmas num_eval =
  nat_str_numeral nat_str_0 nat_str_1 digit_char_def fmt_fixed_def round_half_even_def
  zero_pad_def int_str_def fmt_thousands_def Let_def replicate_numeral_eval

text \<open>Trimming and lower-casing a literal, by rewriting.\<close>

lemmas strip_eval = py_strip_def py_lstrip_def py_rstrip_def py_isspace_def

lemmas lower_eval = is_ascii_upper_def is_latin1_upper_tail_def

section \<open>Properties of the string operations\<close>







section \<open>The data tools on a well-formed address file\<close>












section \<open>The results lister\<close>




lemma sample_listing:
  "list_available_results sample_walk =
     [CHR 0x0A] @ icon File @ '' results/'' @
     ''  '' @ icon Geometry @ '' maps/streets.geojson (20,480 bytes)'' @
     ''  '' @ icon Data @ '' kpi.json (312 bytes)''"
  by (simp add: list_available_results_def sample_walk_def result_line_def categorize_def
        endswith_def suffix_to_prefix num_eval)

section \<open>The street filter of the analyses on well-formed rows\<close>

text \<open>
  On rows whose address cells are lists of address entries the filter does not raise; it
  keeps, in order, the rows that have an entry whose lower-cased street equals the
  lower-cased query.
\<close>

lemma wf_adr_get_dflt:
  assumes "wf_adr a"
  shows "\<exists>v. dict_get a ''str'' (JStr []) = Inr v \<and>
           (if street_of a = [] then \<not> truthy v else v = JStr (street_of a))"
proof (cases a)
  case (JObj kvs)
  show ?thesis
  proof (cases "map_of kvs ''str''")
    case None
    with JObj show ?thesis by simp
  next
    case (Some v)
    with JObj assms show ?thesis by (cases v) auto
  qed
qed (use assms in auto)

lemma addr_loop_wf:
  "list_all wf_adr addrs \<Longrightarrow>
   addr_loop street_name addrs =
     Inr (list_ex (\<lambda>a. street_of a \<noteq> [] \<and> py_lower (street_of a) = py_lower street_name) addrs)"
proof (induction addrs)
  case Nil
  then show ?case by simp
next
  case (Cons a addrs)
  then have wa: "wf_adr a" and wr: "list_all wf_adr addrs" by auto
  obtain v where v: "dict_get a ''str'' (JStr []) = Inr v"
    and vs: "if street_of a = [] then \<not> truthy v else v = JStr (street_of a)"
    using wf_adr_get_dflt[OF wa] by blast
  show ?case
  proof (cases "street_of a = []")
    case True
    with vs v Cons.IH[OF wr] show ?thesis by simp
  next
    case False
    with vs v Cons.IH[OF wr] show ?thesis by simp
  qed
qed

lemma filter_street_wf:
  "list_all wf_row rows \<Longrightarrow>
   filter_street street_name rows acc = Inr (acc @ filter (row_on_street street_name) rows)"
proof (induction rows arbitrary: acc)
  case Nil
  then show ?case by simp
next
  case (Cons b rows)
  then have wb: "wf_row b" and wr: "list_all wf_row rows" by auto
  show ?case
  proof (cases "adressen b")
    case NoColumn
    then show ?thesis using Cons.IH[OF wr] by (simp add: row_on_street_def row_adressen_def)
  next
    case BadJson
    then show ?thesis using Cons.IH[OF wr] by (simp add: row_on_street_def row_adressen_def)
  next
    case (NotText t)
    then show ?thesis using wb by (simp add: wf_row_def)
  next
    case (Parsed v)
    with wb obtain addrs where v: "v = JArr addrs" and wa: "list_all wf_adr addrs"
      by (cases v) (auto simp: wf_row_def)
    have "addr_loop street_name addrs = Inr (row_on_street street_name b)"
      using addr_loop_wf[OF wa] Parsed v by (simp add: row_on_street_def row_adressen_def)
    then show ?thesis using Parsed v Cons.IH[OF wr]
      by (cases "row_on_street street_name b") simp_all
  qed
qed

section \<open>The merge step and the column statistics\<close>



lemma idx_merge_row [simp]: "idx (merge_row pm b) = idx b"
  by (simp add: merge_row_def split: option.splits)





section \<open>The shape of the rendered texts\<close>



text \<open>A summary begins with a line feed, the first character of its template.\<close>

lemma hp_summary_starts:
  "\<exists>rest. hp_summary stats avg_dist_sub street_buildings street_name scenario map_path dashboard_path output_dir chart_paths wd = CHR 0x0A # rest"
  by (simp add: hp_summary_def hp_summary_lit0_def)


lemma comparison_summary_starts:
  "\<exists>rest. comparison_summary street_name hp_scenario hp_result dh_result = CHR 0x0A # rest"
  by (simp add: comparison_summary_def comparison_summary_lit0_def)

section \<open>The analyses: what they return\<close>



lemma hp_body_load_fails:
  assumes "import_modules w = Inr True" and "mkdir w hp_output_dir = None"
    and "load_buildings w = Inl e"
  shows "hp_body w s c = Inl e"
  using assms by (simp add: hp_body_def)

lemma dh_body_read_fails:
  assumes "import_modules w = Inr True" and "mkdir w dh_output_dir = None"
    and "read_buildings w = Inl e"
  shows "dh_body w s = Inl e"
  using assms by (simp add: dh_body_def)

lemma hp_body_no_buildings:
  assumes "import_modules w = Inr True" and "mkdir w hp_output_dir = None"
    and "load_buildings w = Inr buildings" and "filter_street s buildings [] = Inr []"
  shows "hp_body w s c = Inr (no_buildings_msg s)"
  using assms by (simp add: hp_body_def)

lemma dh_body_no_buildings:
  assumes "import_modules w = Inr True" and "mkdir w dh_output_dir = None"
    and "read_buildings w = Inr buildings" and "filter_street s buildings [] = Inr []"
  shows "dh_body w s = Inr (no_buildings_msg s)"
  using assms by (simp add: dh_body_def)



section \<open>The analyses in the sample worlds\<close>

lemma quiet_world_sel:
  "import_modules quiet_world = Inr True"
  "mkdir quiet_world = (\<lambda>d. None)"
  "load_buildings quiet_world = Inr [parkweg_building, padded_building]"
  "read_buildings quiet_world = Inr [parkweg_building, padded_building]"
  "load_power_infrastructure quiet_world = None"
  "read_streets quiet_world = None"
  "compute_proximity quiet_world = (\<lambda>bs. Inr bs)"
  "compute_service_lines_street_following quiet_world = (\<lambda>bs. Inr bs)"
  "compute_power_feasibility quiet_world = (\<lambda>bs scenario. Inr Map.empty)"
  "visualize quiet_world = (\<lambda>bs. None)"
  "output_results_table quiet_world = (\<lambda>bs. None)"
  "plot_histograms quiet_world = (\<lambda>bs. None)"
  "write_text quiet_world = (\<lambda>path content. None)"
  "to_file quiet_world = (\<lambda>path bs. None)"
  "build_network quiet_world = (\<lambda>buildings_file street_name. None)"
  "load_network_stats quiet_world = (\<lambda>path. None)"
  "load_simulation_results quiet_world = (\<lambda>path. None)"
  "now quiet_world = morning"
  "cwd quiet_world = ''/home/user/branitz''"
  by (simp_all add: quiet_world_def)


lemma broken_table_world_sel:
  "import_modules broken_table_world = Inr True"
  "mkdir broken_table_world = (\<lambda>d. None)"
  "load_buildings broken_table_world = Inl (Exn OtherError ''buildings file is damaged'')"
  "read_buildings broken_table_world = Inl (Exn OtherError ''buildings file is damaged'')"
  by (simp_all add: broken_table_world_def quiet_world_sel)



lemma hp_broken:
  "run_comprehensive_hp_analysis broken_table_world ''Parkweg'' ''winter_werktag_abendspitze'' =
     ''Error in comprehensive HP analysis: buildings file is damaged''"
  by (simp add: run_comprehensive_hp_analysis_def hp_body_load_fails broken_table_world_sel)

lemma dh_broken:
  "run_comprehensive_dh_analysis broken_table_world ''Parkweg'' =
     ''Error in comprehensive DH analysis: buildings file is damaged''"
  by (simp add: run_comprehensive_dh_analysis_def dh_body_read_fails broken_table_world_sel)








text \<open>
  The data tools catch \<open>FileNotFoundError\<close> only: on a file that is not JSON, or that is
  JSON of another shape, the exception leaves the tool.
\<close>

lemma data_tools_propagate:
  "get_all_street_names (Content (JObj [])) = Inl (Exn KeyError (quoted ''features''))"
  "get_building_ids_for_street (Content (JArr [])) ''Parkweg'' =
     Inl (Exn TypeError ''list indices must be integers or slices, not str'')"
  "get_all_street_names (Malformed ''Expecting value: line 1 column 1 (char 0)'') =
     Inl (Exn JSONDecodeError ''Expecting value: line 1 column 1 (char 0)'')"
  by (simp_all add: get_all_street_names_def get_building_ids_for_street_def)

lemma single_building_world_sel:
  "import_modules single_building_world = Inr True"
  "mkdir single_building_world = (\<lambda>d. None)"
  "load_buildings single_building_world = Inr [parkweg_building]"
  "read_buildings single_building_world = Inr [parkweg_building]"
  by (simp_all add: single_building_world_def quiet_world_sel)

lemma hp_padded_query:
  "run_comprehensive_hp_analysis single_building_world ''Parkweg '' ''winter_werktag_abendspitze'' =
     ''No buildings found for street: Parkweg ''"
proof -
  have f: "filter_street ''Parkweg '' [parkweg_building] [] = Inr []"
    by (simp add: parkweg_building_def lower_eval)
  have "hp_body single_building_world ''Parkweg '' ''winter_werktag_abendspitze'' =
      Inr (no_buildings_msg ''Parkweg '')"
    by (rule hp_body_no_buildings [OF _ _ _ f]) (simp_all add: single_building_world_sel)
  then show ?thesis by (simp add: run_comprehensive_hp_analysis_def no_buildings_msg_def)
qed

lemma dh_padded_query:
  "run_comprehensive_dh_analysis single_building_world ''Parkweg '' =
     ''No buildings found for street: Parkweg ''"
proof -
  have f: "filter_street ''Parkweg '' [parkweg_building] [] = Inr []"
    by (simp add: parkweg_building_def lower_eval)
  have "dh_body single_building_world ''Parkweg '' = Inr (no_buildings_msg ''Parkweg '')"
    by (rule dh_body_no_buildings [OF _ _ _ f]) (simp_all add: single_building_world_sel)
  then show ?thesis by (simp add: run_comprehensive_dh_analysis_def no_buildings_msg_def)
qed

section \<open>Evaluation on the sample files\<close>









lemma duplicate_entries_lookup_padded:
  "get_building_ids_for_street (Content duplicate_entries_collection) ''Parkweg '' =
     Inr [JStr ''DEBB001'']"
  by (simp add: duplicate_entries_collection_def duplicate_entries_feature_def
        get_building_ids_for_street_def feature_oi_def strip_eval lower_eval)

lemma filter_street_padded_query:
  "filter_street ''Parkweg '' [parkweg_building] [] = Inr []"
  by (simp add: parkweg_building_def lower_eval)

lemma filter_street_padded_entry:
  "filter_street ''Parkweg'' [padded_building] [] = Inr []"
  by (simp add: padded_building_def lower_eval)

lemma filter_street_upper_query:
  "filter_street ''PARKWEG'' [parkweg_building] [] = Inr [parkweg_building]"
  by (simp add: parkweg_building_def lower_eval)




section \<open>The claims\<close>









text \<open>
  C3. The claim: in the lookup and in the filter of the analyses a stored street and a
  query match exactly when their trimmed, case-folded forms are equal. The lookup trims
  both (\<open>get_building_ids_wf\<close>, \<open>on_street\<close>); the filter of the analyses lower-cases
  both and trims neither (\<open>filter_street_wf\<close>, \<open>row_on_street\<close>). A query with a trailing
  blank finds the building through the lookup and not through the filter, and a street
  stored with a trailing blank is not found by the plain query; a difference of case is
  still bridged. Both analyses answer the query with the trailing blank by
  \<open>No buildings found\<close>.
\<close>

theorem analysis_filter_does_not_trim:
  "get_building_ids_for_street (Content duplicate_entries_collection) ''Parkweg '' =
     Inr [JStr ''DEBB001''] \<and>
   filter_street ''Parkweg '' [parkweg_building] [] = Inr [] \<and>
   filter_street ''Parkweg'' [padded_building] [] = Inr [] \<and>
   filter_street ''PARKWEG'' [parkweg_building] [] = Inr [parkweg_building] \<and>
   run_comprehensive_hp_analysis single_building_world ''Parkweg ''
       ''winter_werktag_abendspitze'' = ''No buildings found for street: Parkweg '' \<and>
   run_comprehensive_dh_analysis single_building_world ''Parkweg '' =
     ''No buildings found for street: Parkweg ''"
  using duplicate_entries_lookup_padded filter_street_padded_query filter_street_padded_entry
    filter_street_upper_query hp_padded_query dh_padded_query
  by simp












text \<open>
  C10. When a sub-analysis of the comparison fails, its error text is embedded in the
  summary of the comparison, which is returned as an ordinary result: the value of the
  comparison is its template with the two results of the analyses in their places,
  whatever these are, and it never begins with \<open>Error\<close> (it begins with a line feed).
\<close>

theorem comparison_embeds_sub_results:
  "compare_comprehensive_scenarios w_hp w_dh street_name hp_scenario =
     comparison_summary_lit0 @ street_name @ comparison_summary_lit1 @ hp_scenario @
     comparison_summary_lit2 @ run_comprehensive_hp_analysis w_hp street_name hp_scenario @
     comparison_summary_lit3 @ run_comprehensive_dh_analysis w_dh street_name @
     comparison_summary_lit4 @ street_name @ comparison_summary_lit5 \<and>
   \<not> prefix ''Error'' (compare_comprehensive_scenarios w_hp w_dh street_name hp_scenario)"
proof -
  have a: "compare_comprehensive_scenarios w_hp w_dh street_name hp_scenario =
     comparison_summary street_name hp_scenario
       (run_comprehensive_hp_analysis w_hp street_name hp_scenario)
       (run_comprehensive_dh_analysis w_dh street_name)"
    by (simp add: compare_comprehensive_scenarios_def)
  obtain rest where "compare_comprehensive_scenarios w_hp w_dh street_name hp_scenario =
      CHR 0x0A # rest"
    using comparison_summary_starts a by metis
  then have "\<not> prefix ''Error'' (compare_comprehensive_scenarios w_hp w_dh street_name hp_scenario)"
    by simp
  then show ?thesis using a by (simp add: comparison_summary_def)
qed

theorem comparison_embeds_sub_results_witness:
  "run_comprehensive_hp_analysis broken_table_world ''Parkweg'' ''winter_werktag_abendspitze'' =
     ''Error in comprehensive HP analysis: buildings file is damaged'' \<and>
   run_comprehensive_dh_analysis broken_table_world ''Parkweg'' =
     ''Error in comprehensive DH analysis: buildings file is damaged'' \<and>
   compare_comprehensive_scenarios broken_table_world broken_table_world ''Parkweg''
       ''winter_werktag_abendspitze'' =
     comparison_summary_lit0 @ ''Parkweg'' @ comparison_summary_lit1 @
     ''winter_werktag_abendspitze'' @ comparison_summary_lit2 @
     ''Error in comprehensive HP analysis: buildings file is damaged'' @
     comparison_summary_lit3 @
     ''Error in comprehensive DH analysis: buildings file is damaged'' @
     comparison_summary_lit4 @ ''Parkweg'' @ comparison_summary_lit5 \<and>
   \<not> prefix ''Error''
       (compare_comprehensive_scenarios broken_table_world broken_table_world ''Parkweg''
          ''winter_werktag_abendspitze'')"
proof -
  note t = comparison_embeds_sub_results [of broken_table_world broken_table_world
      "''Parkweg''" "''winter_werktag_abendspitze''"]
  have a: "compare_comprehensive_scenarios broken_table_world broken_table_world ''Parkweg''
       ''winter_werktag_abendspitze'' =
     comparison_summary_lit0 @ ''Parkweg'' @ comparison_summary_lit1 @
     ''winter_werktag_abendspitze'' @ comparison_summary_lit2 @
     ''Error in comprehensive HP analysis: buildings file is damaged'' @
     comparison_summary_lit3 @
     ''Error in comprehensive DH analysis: buildings file is damaged'' @
     comparison_summary_lit4 @ ''Parkweg'' @ comparison_summary_lit5"
    using t [THEN conjunct1] by (simp only: hp_broken dh_broken)
  have b: "\<not> prefix ''Error''
       (compare_comprehensive_scenarios broken_table_world broken_table_world ''Parkweg''
          ''winter_werktag_abendspitze'')"
    using t [THEN conjunct2] .
  show ?thesis using hp_broken dh_broken a b by blast
qed

end
